theory Spec2Isabelle
  imports Complex_Main
begin

chapter \<open>Hyperdrive crowdfunding: settlement engine and wallet front end\<close>

section \<open>Settlement engine (the on-chain program)\<close>

text \<open>
  The PyTeal program that holds the funds is not among the source files: only the
  wallet helper scripts, the signer bridge and the React wallet selector are. The
  engine below is therefore written from the specification's sections 3, 4 and 7, one
  definition per public operation, and every statement about it is a statement about
  that text.
\<close>

subsection \<open>Data model\<close>

type_synonym address = string
type_synonym timestamp = nat

datatype Phase = Funding | Succeeded | Failed

record ContractState =
  goal :: nat
  deadline :: timestamp
  tokenRate :: nat
  depositAmount :: rat
  raisedTotal :: nat
  phase :: Phase
  creatorAddress :: address
  adminAddress :: address
  depositReturned :: bool
  feeWithdrawn :: bool

record ContributionRecord =
  amountContributed :: nat
  tokensClaimed :: bool
  refunded :: bool

text \<open>The ledger store keeps one record per contributor address, in order of creation.\<close>

type_synonym LedgerStore = "(address \<times> ContributionRecord) list"

record Engine =
  contract :: ContractState
  ledger :: LedgerStore

text \<open>Errors of section 4.1, and the kinds of section 7 they belong to. Section 4.1 names
  no error for a wrong caller or for a second \<open>WithdrawFunds\<close>, \<open>ReturnDeposit\<close> or
  \<open>ReclaimDepositOnFailure\<close>; the last three constructors stand for these.\<close>

datatype EngineError =
    DeadlinePassed | AmountMismatch | NonPositiveAmount
  | GoalNotReached | StillFunding | AlreadyClaimed | NoContribution
  | GoalReached | AlreadyRefunded
  | WrongCaller | AlreadyWithdrawn | DepositAlreadySettled

datatype ErrorKind = PreconditionViolation | AmountMismatchKind | DuplicateAction | NotFound

text \<open>Money leaving the contract: currency (smallest unit, exact fractions) or tokens.\<close>

datatype Transfer = PayCurrency address rat | PayTokens address nat

datatype Operation =
    Contribute address nat nat
  | ClaimTokens address
  | Refund address
  | WithdrawFunds address
  | ReturnDeposit address
  | ReclaimDepositOnFailure address

subsection \<open>Ledger store\<close>

text \<open>Modelled from the spec: the Ledger Store of section 4.2 (\<open>get\<close>, \<open>upsert\<close>), whose
  code is not in the sources. A record is created lazily, with nothing contributed.\<close>

definition newRecord :: ContributionRecord where
  "newRecord = \<lparr>amountContributed = 0, tokensClaimed = False, refunded = False\<rparr>"

definition get :: "LedgerStore \<Rightarrow> address \<Rightarrow> ContributionRecord option" where
  "get l a = map_of l a"

fun upsert :: "address \<Rightarrow> (ContributionRecord \<Rightarrow> ContributionRecord) \<Rightarrow> LedgerStore \<Rightarrow> LedgerStore" where
  "upsert a f [] = [(a, f newRecord)]"
| "upsert a f ((k, r) # rest) = (if k = a then (k, f r) # rest else (k, r) # upsert a f rest)"

definition ledgerSum :: "LedgerStore \<Rightarrow> nat" where
  "ledgerSum l = sum_list (map (\<lambda>(a, r). amountContributed r) l)"

subsection \<open>Deployment and phase resolution\<close>

text \<open>Modelled from the spec: the Deployer of sections 2, 3 and 6. The deadline is the
  creation time plus the fixed 60-day window (in seconds), the deposit is 2% of the goal.\<close>

definition fundingWindow :: nat where
  "fundingWindow = 60 * 24 * 60 * 60"

definition deploy :: "address \<Rightarrow> address \<Rightarrow> nat \<Rightarrow> nat \<Rightarrow> timestamp \<Rightarrow> Engine" where
  "deploy creator admin g rate created =
     \<lparr>contract =
        \<lparr>goal = g, deadline = created + fundingWindow, tokenRate = rate,
         depositAmount = of_nat g * 2 / 100, raisedTotal = 0, phase = Funding,
         creatorAddress = creator, adminAddress = admin,
         depositReturned = False, feeWithdrawn = False\<rparr>,
      ledger = []\<rparr>"

text \<open>Modelled from the spec: \<open>resolvePhase(state, now)\<close> of section 9, with the rule of
  section 3: a resolved phase is kept; otherwise \<open>Funding\<close> while \<open>now < deadline\<close>, and
  from the deadline on \<open>Succeeded\<close> if \<open>raisedTotal >= goal\<close>, else \<open>Failed\<close>.\<close>

definition resolvePhase :: "ContractState \<Rightarrow> timestamp \<Rightarrow> Phase" where
  "resolvePhase c now =
     (if phase c \<noteq> Funding then phase c
      else if now < deadline c then Funding
      else if goal c \<le> raisedTotal c then Succeeded
      else Failed)"

subsection \<open>Operations\<close>

text \<open>Every operation resolves the phase first, checks its preconditions in the order
  section 4.1 lists them, and either rejects with no effect or commits the new state
  (the resolved phase cached in it) together with the transfers it pays out.\<close>

type_synonym Outcome = "EngineError + (Engine \<times> Transfer list)"

text \<open>Modelled from the spec: \<open>Contribute(from, amount)\<close> of section 4.1; \<open>paid\<close> is the
  amount of the payment leg attached in the same bundle.\<close>

definition contribute :: "Engine \<Rightarrow> timestamp \<Rightarrow> address \<Rightarrow> nat \<Rightarrow> nat \<Rightarrow> Outcome" where
  "contribute s now sender amount paid =
     (if resolvePhase (contract s) now \<noteq> Funding then Inl DeadlinePassed
      else if amount = 0 then Inl NonPositiveAmount
      else if paid \<noteq> amount then Inl AmountMismatch
      else Inr (\<lparr>contract = (contract s)\<lparr>raisedTotal := raisedTotal (contract s) + amount\<rparr>,
                 ledger = upsert sender
                            (\<lambda>r. r\<lparr>amountContributed := amountContributed r + amount\<rparr>)
                            (ledger s)\<rparr>, []))"

text \<open>Modelled from the spec: \<open>ClaimTokens(address)\<close> of section 4.1.\<close>

definition claimTokens :: "Engine \<Rightarrow> timestamp \<Rightarrow> address \<Rightarrow> Outcome" where
  "claimTokens s now a =
     (case resolvePhase (contract s) now of
        Funding \<Rightarrow> Inl StillFunding
      | Failed \<Rightarrow> Inl GoalNotReached
      | Succeeded \<Rightarrow>
          (case get (ledger s) a of
             None \<Rightarrow> Inl NoContribution
           | Some r \<Rightarrow>
               if tokensClaimed r then Inl AlreadyClaimed
               else if amountContributed r = 0 then Inl NoContribution
               else Inr (\<lparr>contract = (contract s)\<lparr>phase := Succeeded\<rparr>,
                          ledger = upsert a (\<lambda>r. r\<lparr>tokensClaimed := True\<rparr>) (ledger s)\<rparr>,
                         [PayTokens a (amountContributed r * tokenRate (contract s))])))"

text \<open>Modelled from the spec: \<open>Refund(address)\<close> of section 4.1.\<close>

definition refund :: "Engine \<Rightarrow> timestamp \<Rightarrow> address \<Rightarrow> Outcome" where
  "refund s now a =
     (case resolvePhase (contract s) now of
        Funding \<Rightarrow> Inl StillFunding
      | Succeeded \<Rightarrow> Inl GoalReached
      | Failed \<Rightarrow>
          (case get (ledger s) a of
             None \<Rightarrow> Inl NoContribution
           | Some r \<Rightarrow>
               if refunded r then Inl AlreadyRefunded
               else if amountContributed r = 0 then Inl NoContribution
               else Inr (\<lparr>contract = (contract s)\<lparr>phase := Failed\<rparr>,
                          ledger = upsert a (\<lambda>r. r\<lparr>refunded := True\<rparr>) (ledger s)\<rparr>,
                         [PayCurrency a (of_nat (amountContributed r))])))"

text \<open>Modelled from the spec: \<open>WithdrawFunds(caller)\<close> of section 4.1: 98% of
  \<open>min(raisedTotal, goal)\<close> to the creator, 2% of it to the admin.\<close>

definition withdrawFunds :: "Engine \<Rightarrow> timestamp \<Rightarrow> address \<Rightarrow> Outcome" where
  "withdrawFunds s now caller =
     (let c = contract s; capped = of_nat (min (raisedTotal c) (goal c)) in
      if caller \<noteq> creatorAddress c then Inl WrongCaller
      else case resolvePhase c now of
        Funding \<Rightarrow> Inl StillFunding
      | Failed \<Rightarrow> Inl GoalNotReached
      | Succeeded \<Rightarrow>
          if feeWithdrawn c then Inl AlreadyWithdrawn
          else Inr (s\<lparr>contract := c\<lparr>phase := Succeeded, feeWithdrawn := True\<rparr>\<rparr>,
                    [PayCurrency (creatorAddress c) (capped * 98 / 100),
                     PayCurrency (adminAddress c) (capped * 2 / 100)]))"

text \<open>Modelled from the spec: \<open>ReturnDeposit(caller)\<close> of section 4.1.\<close>

definition returnDeposit :: "Engine \<Rightarrow> timestamp \<Rightarrow> address \<Rightarrow> Outcome" where
  "returnDeposit s now caller =
     (let c = contract s in
      case resolvePhase c now of
        Funding \<Rightarrow> Inl StillFunding
      | Failed \<Rightarrow> Inl GoalNotReached
      | Succeeded \<Rightarrow>
          if depositReturned c then Inl DepositAlreadySettled
          else Inr (s\<lparr>contract := c\<lparr>phase := Succeeded, depositReturned := True\<rparr>\<rparr>,
                    [PayCurrency (creatorAddress c) (depositAmount c)]))"

text \<open>Modelled from the spec: \<open>ReclaimDepositOnFailure(caller)\<close> of section 4.1: the
  deposit is split 50/50 between the admin and the creator.\<close>

definition reclaimDepositOnFailure :: "Engine \<Rightarrow> timestamp \<Rightarrow> address \<Rightarrow> Outcome" where
  "reclaimDepositOnFailure s now caller =
     (let c = contract s in
      case resolvePhase c now of
        Funding \<Rightarrow> Inl StillFunding
      | Succeeded \<Rightarrow> Inl GoalReached
      | Failed \<Rightarrow>
          if depositReturned c then Inl DepositAlreadySettled
          else Inr (s\<lparr>contract := c\<lparr>phase := Failed, depositReturned := True\<rparr>\<rparr>,
                    [PayCurrency (adminAddress c) (depositAmount c / 2),
                     PayCurrency (creatorAddress c) (depositAmount c / 2)]))"

text \<open>Modelled from the spec: the error taxonomy of section 7.\<close>

fun errorKind :: "EngineError \<Rightarrow> ErrorKind" where
  "errorKind DeadlinePassed = PreconditionViolation"
| "errorKind NonPositiveAmount = PreconditionViolation"
| "errorKind AmountMismatch = AmountMismatchKind"
| "errorKind GoalNotReached = PreconditionViolation"
| "errorKind StillFunding = PreconditionViolation"
| "errorKind GoalReached = PreconditionViolation"
| "errorKind WrongCaller = PreconditionViolation"
| "errorKind AlreadyClaimed = DuplicateAction"
| "errorKind AlreadyRefunded = DuplicateAction"
| "errorKind AlreadyWithdrawn = DuplicateAction"
| "errorKind DepositAlreadySettled = DuplicateAction"
| "errorKind NoContribution = NotFound"

fun apply_op :: "Engine \<Rightarrow> timestamp \<Rightarrow> Operation \<Rightarrow> Outcome" where
  "apply_op s now (Contribute sender amount paid) = contribute s now sender amount paid"
| "apply_op s now (ClaimTokens a) = claimTokens s now a"
| "apply_op s now (Refund a) = refund s now a"
| "apply_op s now (WithdrawFunds caller) = withdrawFunds s now caller"
| "apply_op s now (ReturnDeposit caller) = returnDeposit s now caller"
| "apply_op s now (ReclaimDepositOnFailure caller) = reclaimDepositOnFailure s now caller"

text \<open>The execution environment commits one submitted operation at a time; a rejected
  one leaves the committed state as it was (section 5 and section 7).\<close>

definition submit :: "Engine \<Rightarrow> timestamp \<times> Operation \<Rightarrow> Engine" where
  "submit s call = (case apply_op s (fst call) (snd call) of Inl e \<Rightarrow> s | Inr (s', paid) \<Rightarrow> s')"

definition run :: "Engine \<Rightarrow> (timestamp \<times> Operation) list \<Rightarrow> Engine" where
  "run s calls = foldl submit s calls"

text \<open>The committed states after each call of a sequence, in order.\<close>

fun states :: "Engine \<Rightarrow> (timestamp \<times> Operation) list \<Rightarrow> Engine list" where
  "states s [] = []"
| "states s (call # calls) = submit s call # states (submit s call) calls"

text \<open>The tokens a list of transfers pays to an address, and the currency it pays out
  in all.\<close>

fun tokensPaidTo :: "address \<Rightarrow> Transfer list \<Rightarrow> nat" where
  "tokensPaidTo a [] = 0"
| "tokensPaidTo a (PayTokens b n # ts) = (if a = b then n else 0) + tokensPaidTo a ts"
| "tokensPaidTo a (PayCurrency b x # ts) = tokensPaidTo a ts"

fun currencyPaid :: "Transfer list \<Rightarrow> rat" where
  "currencyPaid [] = 0"
| "currencyPaid (PayCurrency b x # ts) = x + currencyPaid ts"
| "currencyPaid (PayTokens b n # ts) = currencyPaid ts"

text \<open>The phase an observer resolves right after each call of a sequence, at that call's
  time.\<close>

fun phases :: "Engine \<Rightarrow> (timestamp \<times> Operation) list \<Rightarrow> Phase list" where
  "phases s [] = []"
| "phases s (call # calls) =
     resolvePhase (contract (submit s call)) (fst call) # phases (submit s call) calls"

text \<open>The engine together with the token balances its commits credit.\<close>

record World =
  engine :: Engine
  tokenBalance :: "address \<Rightarrow> nat"

definition execute :: "World \<Rightarrow> timestamp \<Rightarrow> Operation \<Rightarrow> World \<times> EngineError option" where
  "execute w now op =
     (case apply_op (engine w) now op of
        Inl e \<Rightarrow> (w, Some e)
      | Inr (s', paid) \<Rightarrow>
          (\<lparr>engine = s', tokenBalance = (\<lambda>a. tokenBalance w a + tokensPaidTo a paid)\<rparr>, None))"

text \<open>The scenario of section 8: goal 100, A gives 60 and B gives 50 before the deadline.\<close>

definition scenario :: Engine where
  "scenario = run (deploy ''CREATOR'' ''ADMIN'' 100 3 0)
                [(1, Contribute ''A'' 60 60), (2, Contribute ''B'' 50 50)]"

text \<open>The same scenario with the goal at exactly the amount raised (the tie), one whose
  goal of 1_000_000 is missed, and the world after A's first claim in the scenario.\<close>

definition tie :: Engine where
  "tie = run (deploy ''CREATOR'' ''ADMIN'' 110 3 0)
           [(1, Contribute ''A'' 60 60), (2, Contribute ''B'' 50 50)]"

definition million :: Engine where
  "million = run (deploy ''CREATOR'' ''ADMIN'' 1000000 3 0) [(1, Contribute ''A'' 200 200)]"

definition claimedOnce :: World where
  "claimedOnce = fst (execute \<lparr>engine = scenario, tokenBalance = (\<lambda>a. 0)\<rparr> 5184000 (ClaimTokens ''A''))"

section \<open>Wallet front end (the browser scripts)\<close>

text \<open>
  The scripts run in a browser page. What they call but do not define (the DOM, \<open>fetch\<close>,
  \<open>JSON.parse\<close>, \<open>parseFloat\<close>, \<open>atob\<close>, the wallet hook, algosdk, the algod client) is a
  field of an environment record, so every statement below holds whatever these return.
  One click is evaluated against one snapshot of the window's globals. A run of a
  handler is the trace of the effects it causes, in order; an \<open>async\<close> function is its
  trace together with the value it resolves to or the value it rejects with.
  \<open>ensureSignerReady\<close> only waits (at most five seconds) for the bridge to appear and has
  no effect of its own, so it leaves no mark on a trace. A \<open>fetch\<close> that rejects, or whose
  body cannot be read, is the \<open>Inl\<close> case of the environment's \<open>fetch\<close>.
\<close>

subsection \<open>JavaScript values\<close>

type_synonym bytes = string

text \<open>An unsigned transaction object as algosdk decodes it.\<close>

datatype Transaction = Transaction bytes

text \<open>A JavaScript number as \<open>parseFloat\<close> returns it.\<close>

datatype number = NaN | Finite rat | PosInfinity | NegInfinity

text \<open>\<open>!x\<close> and \<open>x <= 0\<close> on numbers.\<close>

definition falsy_number :: "number \<Rightarrow> bool" where
  "falsy_number x = (x = NaN \<or> x = Finite 0)"

definition le_zero :: "number \<Rightarrow> bool" where
  "le_zero x = (case x of Finite r \<Rightarrow> r \<le> 0 | NegInfinity \<Rightarrow> True | NaN \<Rightarrow> False | PosInfinity \<Rightarrow> False)"

text \<open>A string that may be \<open>undefined\<close> or \<open>null\<close> (\<open>None\<close>); the empty string is falsy too.\<close>

definition truthy :: "string option \<Rightarrow> bool" where
  "truthy v = (case v of None \<Rightarrow> False | Some s \<Rightarrow> s \<noteq> [])"

text \<open>\<open>a || b || ... || fallback\<close> on such strings.\<close>

fun first_truthy :: "string option list \<Rightarrow> string \<Rightarrow> string" where
  "first_truthy [] fallback = fallback"
| "first_truthy (None # vs) fallback = first_truthy vs fallback"
| "first_truthy (Some s # vs) fallback = (if s \<noteq> [] then s else first_truthy vs fallback)"

text \<open>A value a \<open>throw\<close> raises or a promise rejects with: an \<open>Error\<close> object (its name and
  message), a string, or \<open>undefined\<close>.\<close>

datatype thrown = ErrorObject string string | ThrownString string | ThrownUndefined

definition newError :: "string \<Rightarrow> thrown" where
  "newError m = ErrorObject ''Error'' m"

text \<open>\<open>String(e)\<close> and the \<open>message\<close> property of such a value.\<close>

fun String_of :: "thrown \<Rightarrow> string" where
  "String_of (ErrorObject n m) = (if n = [] then m else if m = [] then n else n @ '': '' @ m)"
| "String_of (ThrownString s) = s"
| "String_of ThrownUndefined = ''undefined''"

fun message :: "thrown \<Rightarrow> string option" where
  "message (ErrorObject n m) = Some m"
| "message (ThrownString s) = None"
| "message ThrownUndefined = None"

text \<open>\<open>e?.message || String(e)\<close>, the text every \<open>catch\<close> of wallet.js alerts.\<close>

definition message_or_String :: "thrown \<Rightarrow> string" where
  "message_or_String e = first_truthy [message e] (String_of e)"

text \<open>Decimal digits of a number in a template string.\<close>

definition digit :: "nat \<Rightarrow> char" where
  "digit d = char_of (of_char CHR ''0'' + d)"

fun decimal :: "nat \<Rightarrow> string" where
  "decimal n = (if n div 10 = 0 then [digit n] else decimal (n div 10) @ [digit (n mod 10)])"

declare decimal.simps [simp del]

subsection \<open>Requests, responses and effects\<close>

text \<open>The five endpoints under \<open>/api/projects/${projectId}/\<close> and the JSON bodies posted.\<close>

datatype endpoint = DeployBuild | DeployFinalize | BuildContribution | BuildClaimTokens | BuildRefund

datatype request =
    CreatorAddressBody "string option"
  | TxIdBody string
  | ContributionBody "string option" number
  | AddressBody "string option"

record response =
  ok :: bool
  status :: nat
  body :: string

text \<open>What \<open>data.error\<close> is worth in \<open>new Error(data.error || ...)\<close>: nothing (\<open>undefined\<close>, or
  a falsy value that is not a string: \<open>null\<close>, \<open>false\<close>, \<open>0\<close>), a string, a truthy value that
  is not a string, given by its \<open>String\<close> form (\<open>42\<close> for the number, the empty text for an
  empty array), or a truthy value that has no \<open>String\<close> form (an object whose own \<open>toString\<close>
  and \<open>valueOf\<close> are no functions), on which \<open>new Error\<close> throws.\<close>

datatype field_value = Absent | Text string | NonString string | Unprintable

text \<open>The fields the scripts read off a parsed response body. \<open>group_field\<close> is \<open>Some\<close> for an
  array of strings and \<open>None\<close> for anything that is no array (\<open>undefined\<close> included);
  \<open>group_other_length\<close> says, of a \<open>group\<close> that is no array, whether it is truthy and has
  a truthy \<open>length\<close> (a non-empty string has). \<open>txn_field\<close> is \<open>Some\<close> for a string.
  \<open>app_id_field\<close> is what \<open>${fin.app_id}\<close> prints (\<open>undefined\<close> when there is no \<open>app_id\<close>),
  \<open>None\<close> when the value has no \<open>String\<close> form and the template throws.\<close>

record json =
  error_field :: field_value
  group_field :: "string list option"
  group_other_length :: bool
  txn_field :: "string option"
  app_id_field :: "string option"

text \<open>What \<open>JSON.parse\<close> returns: \<open>null\<close>, on which reading any property throws, or another
  value, read through its fields (a number, a string or an array has none of them).\<close>

datatype parsed = JsonNull | JsonValue json

definition emptyJson :: json where
  "emptyJson = \<lparr>error_field = Absent, group_field = None, group_other_length = False,
                 txn_field = None, app_id_field = Some ''undefined''\<rparr>"

datatype event =
    Fetch endpoint request
  | SignTransactions "bytes list"
  | SendRawTransaction "bytes list"
  | PeraSignTransaction "bytes list list"
  | Alert string
  | ConsoleError thrown
  | ConsoleDebug thrown
  | SetHint string
  | ReloadLater
  | PreventDefault
  | CloseDialog
  | WalletConnect
  | WalletDisconnect
  | SetConnectedAccount "string option"
  | RemoveStoredSession

type_synonym 'a async = "event list \<times> (thrown + 'a)"

definition resolved :: "'a \<Rightarrow> 'a async" where
  "resolved x = ([], Inr x)"

definition throw :: "thrown \<Rightarrow> 'a async" where
  "throw e = ([], Inl e)"

definition effect :: "event \<Rightarrow> unit async" where
  "effect ev = ([ev], Inr ())"

text \<open>A call of an outside function: the call is on the trace whether it returns or throws.\<close>

definition outcall :: "event \<Rightarrow> (thrown + 'a) \<Rightarrow> 'a async" where
  "outcall ev r = ([ev], r)"

text \<open>\<open>await m; rest\<close>: the rest runs only if \<open>m\<close> did not throw.\<close>

definition andThen :: "'a async \<Rightarrow> ('a \<Rightarrow> 'b async) \<Rightarrow> 'b async" where
  "andThen m f =
     (case m of
        (evs, Inl e) \<Rightarrow> (evs, Inl e)
      | (evs, Inr x) \<Rightarrow> (case f x of (evs', r) \<Rightarrow> (evs @ evs', r)))"

text \<open>\<open>try { m } catch (e) { handler e }\<close> around a whole handler body.\<close>

definition try_catch :: "unit async \<Rightarrow> (thrown \<Rightarrow> event list) \<Rightarrow> event list" where
  "try_catch m handler = (case m of (evs, Inl e) \<Rightarrow> evs @ handler e | (evs, Inr u) \<Rightarrow> evs)"

text \<open>\<open>xs.map(f)\<close> with an \<open>f\<close> that may throw: the first throw ends the loop.\<close>

fun traverse :: "('a \<Rightarrow> thrown + 'b) \<Rightarrow> 'a list \<Rightarrow> thrown + 'b list" where
  "traverse f [] = Inr []"
| "traverse f (x # xs) =
     (case f x of
        Inl e \<Rightarrow> Inl e
      | Inr y \<Rightarrow> (case traverse f xs of Inl e \<Rightarrow> Inl e | Inr ys \<Rightarrow> Inr (y # ys)))"

subsection \<open>The environment\<close>

text \<open>What \<open>attachWalletBridge\<close> closes over: the active address of the wallet hook, its
  \<open>signTransactions\<close>, algosdk's decoder and encoder, and the algod client.\<close>

record bridge =
  activeAddress :: "string option"
  decodeUnsignedTransaction :: "string \<Rightarrow> thrown + Transaction"
  encodeUnsignedTransaction :: "Transaction \<Rightarrow> bytes"
  signTransactions :: "bytes list \<Rightarrow> thrown + bytes list"
  sendRawTransaction :: "bytes list \<Rightarrow> thrown + string"

text \<open>A Pera wallet object of the two older helper scripts.\<close>

record pera =
  pera_signTransaction :: "bytes list list \<Rightarrow> thrown + bytes list"

record env =
  hyperdrive :: "bridge option"
  connectedAccount :: "string option"
  connectedAddr :: "string option"
  contrib_amt :: "string option"
  deploy_hint :: bool
  parseFloat :: "string \<Rightarrow> number"
  fetch :: "endpoint \<Rightarrow> request \<Rightarrow> thrown + response"
  JSON_parse :: "string \<Rightarrow> parsed option"
  atob :: "string \<Rightarrow> thrown + bytes"
  window_wallet :: "pera option"
  PeraWalletConnect :: "pera option"
  typeError :: thrown
  syntaxError :: thrown

text \<open>\<open>hyperdrive\<close> is \<open>window.Hyperdrive\<close> once \<open>ensureSignerReady\<close> has returned,
  \<open>connectedAccount\<close> is \<open>window.connectedAccount\<close>, \<open>connectedAddr\<close> the module variable of
  the older scripts, \<open>contrib_amt\<close> the value of the input \<open>#contrib-amt\<close> (\<open>None\<close> when there
  is no such element), \<open>deploy_hint\<close> says whether \<open>#deploy-hint\<close> exists, \<open>window_wallet\<close> is
  \<open>window._wallet\<close>, \<open>PeraWalletConnect\<close> the wallet the UMD constructor builds when it is
  loaded, \<open>JSON_parse\<close> is \<open>JSON.parse\<close> (\<open>None\<close> when it throws), \<open>typeError\<close> is the
  \<open>TypeError\<close> the engine throws in this run (on reading a property of \<open>undefined\<close> or of
  \<open>null\<close>, or on calling what is no function; a handler throws at most once), and
  \<open>syntaxError\<close> what \<open>r.json()\<close> rejects with on a body that is not JSON.\<close>

subsection \<open>The signer bridge (frontend/src/bridge.ts, with attachWalletBridge)\<close>

text \<open>\<open>Buffer.from(b64, "base64")\<close> of an entry that is not a string throws.\<close>

definition decode :: "bridge \<Rightarrow> thrown \<Rightarrow> string option \<Rightarrow> thrown + Transaction" where
  "decode b te entry = (case entry of None \<Rightarrow> Inl te | Some b64 \<Rightarrow> decodeUnsignedTransaction b b64)"

definition signAndSendGroup :: "bridge \<Rightarrow> thrown \<Rightarrow> string option list option \<Rightarrow> string async" where
  "signAndSendGroup b te b64Group =
     (if \<not> truthy (activeAddress b) then throw (newError ''No active wallet. Please connect first.'')
      else
        andThen (case b64Group of
                   None \<Rightarrow> throw te
                 | Some entries \<Rightarrow> ([], traverse (decode b te) entries)) (\<lambda>unsignedTxns.
        let unsignedBytes = map (encodeUnsignedTransaction b) unsignedTxns in
        andThen (outcall (SignTransactions unsignedBytes) (signTransactions b unsignedBytes)) (\<lambda>signed.
        andThen (outcall (SendRawTransaction signed) (sendRawTransaction b signed)) (\<lambda>txId.
        resolved txId))))"

definition signAndSendSingle :: "bridge \<Rightarrow> thrown \<Rightarrow> string option \<Rightarrow> string async" where
  "signAndSendSingle b te b64Txn = signAndSendGroup b te (Some [b64Txn])"

subsection \<open>wallet.js, bridge-driven version\<close>

definition getActiveAddress :: "env \<Rightarrow> string option" where
  "getActiveAddress e =
     (let fromBridge = (case hyperdrive e of None \<Rightarrow> None | Some b \<Rightarrow> activeAddress b) in
      if truthy fromBridge then fromBridge
      else if truthy (connectedAccount e) then connectedAccount e
      else None)"

definition wallet_signAndSendGroup :: "env \<Rightarrow> string list option \<Rightarrow> string async" where
  "wallet_signAndSendGroup e b64Group =
     (case hyperdrive e of
        None \<Rightarrow> throw (newError ''No wallet connected yet. Please connect Pera or Defly first.'')
      | Some b \<Rightarrow> signAndSendGroup b (typeError e) (map_option (map Some) b64Group))"

definition wallet_signAndSendSingle :: "env \<Rightarrow> string option \<Rightarrow> string async" where
  "wallet_signAndSendSingle e b64Txn =
     (case hyperdrive e of
        None \<Rightarrow> throw (newError ''No wallet connected yet. Please connect Pera or Defly first.'')
      | Some b \<Rightarrow> signAndSendSingle b (typeError e) b64Txn)"

text \<open>\<open>let data = {}; try { data = JSON.parse(raw); } catch {}\<close>\<close>

definition parse_or_empty :: "env \<Rightarrow> string \<Rightarrow> parsed" where
  "parse_or_empty e raw = (case JSON_parse e raw of None \<Rightarrow> JsonValue emptyJson | Some d \<Rightarrow> d)"

text \<open>\<open>data.field\<close>: reading a property of \<open>null\<close> throws.\<close>

definition property :: "env \<Rightarrow> parsed \<Rightarrow> (json \<Rightarrow> 'a) \<Rightarrow> 'a async" where
  "property e data field =
     (case data of JsonNull \<Rightarrow> throw (typeError e) | JsonValue d \<Rightarrow> resolved (field d))"

text \<open>What \<open>throw new Error(data.error || rest)\<close> throws: a truthy error field wins, one
  that is not a string is turned into its \<open>String\<close> form, and where that cannot be taken
  the \<open>TypeError\<close> of the conversion is thrown in place of the new error.\<close>

definition error_or :: "env \<Rightarrow> field_value \<Rightarrow> string \<Rightarrow> thrown" where
  "error_or e v rest =
     (case v of
        Absent \<Rightarrow> newError rest
      | Text s \<Rightarrow> newError (if s \<noteq> [] then s else rest)
      | NonString s \<Rightarrow> newError s
      | Unprintable \<Rightarrow> typeError e)"

text \<open>\<open>throw new Error(data.error || raw || `<what> (${r.status})`)\<close>, what is thrown on a
  response that is not ok, given what \<open>data.error\<close> was read as.\<close>

definition rejection :: "env \<Rightarrow> field_value \<Rightarrow> response \<Rightarrow> string \<Rightarrow> thrown" where
  "rejection e err r what =
     error_or e err (first_truthy [Some (body r)] (what @ '' ('' @ decimal (status r) @ '')''))"

text \<open>\<open>!(!group || !group.length)\<close>, the test of the deploy handler.\<close>

definition group_has_entries :: "json \<Rightarrow> bool" where
  "group_has_entries d =
     (case group_field d of Some entries \<Rightarrow> entries \<noteq> [] | None \<Rightarrow> group_other_length d)"

text \<open>\<open>catch (e) { console.error(e); alert(e?.message || String(e)); }\<close>\<close>

definition catch_alert :: "thrown \<Rightarrow> event list" where
  "catch_alert e = [ConsoleError e, Alert (message_or_String e)]"

definition new_line :: string where
  "new_line = [CHR 0x0A]"

definition ellipsis :: string where
  "ellipsis = [CHR 0xE2, CHR 0x80, CHR 0xA6]"

text \<open>The click handler of \<open>#btn-contribute\<close>.\<close>

definition contribute_click :: "env \<Rightarrow> event list" where
  "contribute_click e =
     try_catch
       (if \<not> truthy (getActiveAddress e) then effect (Alert ''Connect wallet first.'')
        else
          let addr = getActiveAddress e;
              amountAlgo = parseFloat e (first_truthy [contrib_amt e] ''0'') in
          if falsy_number amountAlgo \<or> le_zero amountAlgo then effect (Alert ''Enter an amount > 0'')
          else
            andThen (outcall (Fetch BuildContribution (ContributionBody addr amountAlgo))
                          (fetch e BuildContribution (ContributionBody addr amountAlgo))) (\<lambda>r.
            let data = parse_or_empty e (body r) in
            if \<not> ok r
            then andThen (property e data error_field) (\<lambda>err.
                 throw (rejection e err r ''Build failed''))
            else
              andThen (property e data group_field) (\<lambda>group.
              andThen (wallet_signAndSendGroup e group) (\<lambda>txId.
              effect (Alert (''Contributed! TxID: '' @ txId @ new_line @ new_line @ ''Explorer:''
                             @ new_line @ ''https://testnet.algoexplorer.io/tx/'' @ txId))))))
       catch_alert"

text \<open>The click handlers of \<open>#btn-claim-tokens\<close> and \<open>#btn-refund\<close>.\<close>

definition claim_click :: "env \<Rightarrow> event list" where
  "claim_click e =
     try_catch
       (if \<not> truthy (getActiveAddress e) then effect (Alert ''Connect wallet first.'')
        else
          let addr = getActiveAddress e in
          andThen (outcall (Fetch BuildClaimTokens (AddressBody addr))
                        (fetch e BuildClaimTokens (AddressBody addr))) (\<lambda>r.
          let data = parse_or_empty e (body r) in
          if \<not> ok r
          then andThen (property e data error_field) (\<lambda>err.
               throw (rejection e err r ''Build failed''))
          else
            andThen (property e data txn_field) (\<lambda>txn.
            andThen (wallet_signAndSendSingle e txn) (\<lambda>txId.
            effect (Alert (''Claim submitted! TxID: '' @ txId))))))
       catch_alert"

definition refund_click :: "env \<Rightarrow> event list" where
  "refund_click e =
     try_catch
       (if \<not> truthy (getActiveAddress e) then effect (Alert ''Connect wallet first.'')
        else
          let addr = getActiveAddress e in
          andThen (outcall (Fetch BuildRefund (AddressBody addr))
                        (fetch e BuildRefund (AddressBody addr))) (\<lambda>r.
          let data = parse_or_empty e (body r) in
          if \<not> ok r
          then andThen (property e data error_field) (\<lambda>err.
               throw (rejection e err r ''Build failed''))
          else
            andThen (property e data txn_field) (\<lambda>txn.
            andThen (wallet_signAndSendSingle e txn) (\<lambda>txId.
            effect (Alert (''Refund submitted! TxID: '' @ txId))))))
       catch_alert"

text \<open>The click handler of \<open>#btn-deploy\<close>: build, sign, finalize. \<open>hint && (hint.textContent =
  ...)\<close> writes, and evaluates the text, only when the element exists.\<close>

definition set_hint :: "env \<Rightarrow> string \<Rightarrow> unit async" where
  "set_hint e s = (if deploy_hint e then effect (SetHint s) else resolved ())"

definition deploy_click :: "env \<Rightarrow> event list" where
  "deploy_click e =
     try_catch
       (if \<not> truthy (getActiveAddress e) then throw (newError ''Connect a wallet first.'')
        else
          let addr = getActiveAddress e in
          andThen (set_hint e (''Building deploy transaction'' @ ellipsis)) (\<lambda>u.
          andThen (outcall (Fetch DeployBuild (CreatorAddressBody addr))
                        (fetch e DeployBuild (CreatorAddressBody addr))) (\<lambda>r.
          let data = parse_or_empty e (body r) in
          if \<not> ok r
          then andThen (property e data error_field) (\<lambda>err.
               throw (rejection e err r ''Build deploy failed''))
          else
            andThen (property e data (\<lambda>d. d)) (\<lambda>d.
            if \<not> group_has_entries d
            then throw (error_or e (error_field d) ''No deploy group returned.'')
            else
              andThen (set_hint e (''Waiting for wallet signature'' @ ellipsis)) (\<lambda>u.
              andThen (wallet_signAndSendGroup e (group_field d)) (\<lambda>txId.
              andThen (set_hint e (''Finalizing deployment'' @ ellipsis)) (\<lambda>u.
              andThen (outcall (Fetch DeployFinalize (TxIdBody txId))
                            (fetch e DeployFinalize (TxIdBody txId))) (\<lambda>finR.
              let fin = parse_or_empty e (body finR) in
              if \<not> ok finR
              then andThen (property e fin error_field) (\<lambda>err.
                   throw (rejection e err finR ''Finalize failed''))
              else
                andThen (if deploy_hint e
                         then andThen (property e fin app_id_field) (\<lambda>app_id.
                              case app_id of
                                None \<Rightarrow> throw (typeError e)
                              | Some a \<Rightarrow>
                                  effect (SetHint (''Deployed! App ID '' @ a
                                                   @ ''. Reloading'' @ ellipsis)))
                         else resolved ()) (\<lambda>u.
                effect ReloadLater)))))))))
       (\<lambda>err. catch_alert err @ (if deploy_hint e then [SetHint []] else []))"

subsection \<open>wallet.js, React-driven version (signs in the page, does not broadcast)\<close>

text \<open>\<open>Array.isArray(raws) ? raws : [raws]\<close>, then \<open>atob\<close> of every entry; an \<open>undefined\<close>
  argument reaches \<open>atob\<close> as the string \<open>undefined\<close>.\<close>

definition as_array :: "string list option \<Rightarrow> string list" where
  "as_array raws = (case raws of None \<Rightarrow> [''undefined''] | Some txns \<Rightarrow> txns)"

definition signed_notice_react :: string where
  "signed_notice_react = ''Signed! Submit the signed blob to your node/relay.'' @ new_line
     @ ''(Dev tip: add an /api/broadcast endpoint to send it from the server.)''"

definition signAndSend_react :: "env \<Rightarrow> string list option \<Rightarrow> bytes list async" where
  "signAndSend_react e raws =
     (if \<not> truthy (connectedAddr e)
      then throw (newError ''Connect a wallet first (top-right Connect Wallet).'')
      else
        andThen ([], traverse (atob e) (as_array raws)) (\<lambda>decoded.
        case PeraWalletConnect e of
          Some fresh \<Rightarrow>
            let wallet = (case window_wallet e of Some w \<Rightarrow> w | None \<Rightarrow> fresh) in
            andThen (outcall (PeraSignTransaction [decoded]) (pera_signTransaction wallet [decoded])) (\<lambda>signed.
            andThen (effect (Alert signed_notice_react)) (\<lambda>u.
            resolved signed))
        | None \<Rightarrow>
            throw (newError (''No in-page signer available. The React wallet widget manages connections; ''
                             @ ''either wire signing there or add a server /api/broadcast to relay signed blobs.''))))"

text \<open>\<open>fetch(...).then((r) => r.json())\<close>\<close>

definition fetch_json :: "env \<Rightarrow> endpoint \<Rightarrow> request \<Rightarrow> parsed async" where
  "fetch_json e ep req =
     andThen (outcall (Fetch ep req) (fetch e ep req)) (\<lambda>r.
     case JSON_parse e (body r) of None \<Rightarrow> throw (syntaxError e) | Some d \<Rightarrow> resolved d)"

text \<open>\<open>parseFloat(document.getElementById("contrib-amt").value || "0")\<close>: reading \<open>value\<close>
  off a missing element throws.\<close>

definition read_amount :: "env \<Rightarrow> number async" where
  "read_amount e =
     (case contrib_amt e of
        None \<Rightarrow> throw (typeError e)
      | Some v \<Rightarrow> resolved (parseFloat e (first_truthy [Some v] ''0'')))"

definition contribute_click_react :: "env \<Rightarrow> event list" where
  "contribute_click_react e =
     try_catch
       (andThen (read_amount e) (\<lambda>amt.
        if falsy_number amt \<or> le_zero amt then effect (Alert ''Enter an amount'')
        else
          andThen (fetch_json e BuildContribution (ContributionBody (connectedAddr e) amt)) (\<lambda>res.
          andThen (property e res group_field) (\<lambda>group.
          andThen (signAndSend_react e group) (\<lambda>signed.
          resolved ())))))
       catch_alert"

subsection \<open>backend/static/js/wallet.js, Pera version (signs in the page, does not broadcast)\<close>

definition signAndSend_pera :: "env \<Rightarrow> string list option \<Rightarrow> bytes list async" where
  "signAndSend_pera e raws =
     (if \<not> truthy (connectedAddr e) then throw (newError ''Connect wallet first'')
      else
        andThen (case window_wallet e of
                   Some w \<Rightarrow> resolved w
                 | None \<Rightarrow> (case PeraWalletConnect e of
                               Some fresh \<Rightarrow> resolved fresh
                             | None \<Rightarrow> throw (typeError e))) (\<lambda>wallet.
        andThen ([], traverse (atob e) (as_array raws)) (\<lambda>decoded.
        andThen (outcall (PeraSignTransaction [decoded]) (pera_signTransaction wallet [decoded])) (\<lambda>signed.
        andThen (effect (Alert ''Signed! Submit the signed blob to your node/relay.'')) (\<lambda>u.
        resolved signed)))))"

text \<open>This handler has no \<open>try\<close>: what it throws is an unhandled rejection.\<close>

definition contribute_click_pera :: "env \<Rightarrow> unit async" where
  "contribute_click_pera e =
     andThen (read_amount e) (\<lambda>amt.
     if falsy_number amt \<or> le_zero amt then effect (Alert ''Enter amount'')
     else
       andThen (fetch_json e BuildContribution (ContributionBody (connectedAddr e) amt)) (\<lambda>res.
       andThen (property e res group_field) (\<lambda>group.
       andThen (signAndSend_pera e group) (\<lambda>signed.
       resolved ()))))"

subsection \<open>The wallet selector (ConnectWallet.tsx)\<close>

text \<open>\<open>s.toLowerCase()\<close> on the ASCII letters and \<open>s.includes(p)\<close>.\<close>

definition toLowerChar :: "char \<Rightarrow> char" where
  "toLowerChar c =
     (if 65 \<le> (of_char c :: nat) \<and> (of_char c :: nat) \<le> 90 then char_of ((of_char c :: nat) + 32) else c)"

definition toLowerCase :: "string \<Rightarrow> string" where
  "toLowerCase s = map toLowerChar s"

fun startsWith :: "string \<Rightarrow> string \<Rightarrow> bool" where
  "startsWith s [] = True"
| "startsWith [] (p # ps) = False"
| "startsWith (c # cs) (p # ps) = (c = p \<and> startsWith cs ps)"

fun str_includes :: "string \<Rightarrow> string \<Rightarrow> bool" where
  "str_includes [] p = (p = [])"
| "str_includes (c # cs) p = (startsWith (c # cs) p \<or> str_includes cs p)"

text \<open>\<open>((err as any)?.message || String(err || '')).toLowerCase()\<close>: a falsy \<open>err\<close> gives
  the empty string.\<close>

definition dismiss_text :: "thrown \<Rightarrow> string" where
  "dismiss_text err =
     toLowerCase (first_truthy [message err]
                    (case err of ThrownUndefined \<Rightarrow> [] | ThrownString s \<Rightarrow> s
                               | ErrorObject n m \<Rightarrow> String_of err))"

definition isDismissError :: "thrown \<Rightarrow> bool" where
  "isDismissError err =
     (let msg = dismiss_text err in
        str_includes msg ''closed by user'' \<or>
        str_includes msg ''user closed'' \<or>
        str_includes msg ''user rejected'' \<or>
        str_includes msg ''rejected'' \<or>
        str_includes msg ''cancelled'' \<or>
        str_includes msg ''canceled'' \<or>
        str_includes msg ''modal closed'')"

text \<open>\<open>(err as Error)?.message ?? String(err)\<close>: an empty message is kept.\<close>

definition message_else_String :: "thrown \<Rightarrow> string" where
  "message_else_String err = (case message err of Some m \<Rightarrow> m | None \<Rightarrow> String_of err)"

text \<open>The selector's state: the dialog element (\<open>None\<close> while the ref is null, else whether
  it is open) and what \<open>wallet.connect()\<close> does when called (\<open>None\<close>: it resolves).\<close>

record selector =
  dialog_open :: "bool option"
  connect_rejects :: "thrown option"

definition handleConnectClick :: "selector \<Rightarrow> event list" where
  "handleConnectClick w =
     [PreventDefault]
     @ (if dialog_open w = Some True then [CloseDialog] else [])
     @ [WalletConnect]
     @ (case connect_rejects w of
          None \<Rightarrow> []
        | Some err \<Rightarrow>
            if isDismissError err then [ConsoleDebug err]
            else [ConsoleError err, Alert (message_else_String err)])"

text \<open>\<open>setConnectedAccount\<close> of bridge.ts is the one place that writes the connection state,
  and the logout button (like the Disconnect button of Account.tsx) is the one handler
  that calls it; \<open>active_wallet\<close> says whether some wallet is active.\<close>

definition setConnectedAccount :: "string option \<Rightarrow> event list" where
  "setConnectedAccount addr = [SetConnectedAccount addr]"

definition logout_click :: "bool \<Rightarrow> event list" where
  "logout_click active_wallet =
     [PreventDefault]
     @ (if active_wallet then WalletDisconnect # setConnectedAccount None
        else [RemoveStoredSession, ReloadLater])"

subsection \<open>Reading a trace\<close>

fun fetches :: "event list \<Rightarrow> (endpoint \<times> request) list" where
  "fetches [] = []"
| "fetches (Fetch ep req # evs) = (ep, req) # fetches evs"
| "fetches (ev # evs) = fetches evs"

fun signs :: "event list \<Rightarrow> bytes list list" where
  "signs [] = []"
| "signs (SignTransactions txns # evs) = txns # signs evs"
| "signs (ev # evs) = signs evs"

fun sends :: "event list \<Rightarrow> bytes list list" where
  "sends [] = []"
| "sends (SendRawTransaction blobs # evs) = blobs # sends evs"
| "sends (ev # evs) = sends evs"

fun pera_signs :: "event list \<Rightarrow> bytes list list list" where
  "pera_signs [] = []"
| "pera_signs (PeraSignTransaction groups # evs) = groups # pera_signs evs"
| "pera_signs (ev # evs) = pera_signs evs"

fun alerts :: "event list \<Rightarrow> string list" where
  "alerts [] = []"
| "alerts (Alert s # evs) = s # alerts evs"
| "alerts (ev # evs) = alerts evs"

fun connection_writes :: "event list \<Rightarrow> string option list" where
  "connection_writes [] = []"
| "connection_writes (SetConnectedAccount a # evs) = a # connection_writes evs"
| "connection_writes (ev # evs) = connection_writes evs"


subsection \<open>Predicates on runs\<close>

text \<open>What a run of the signer leaves on the trace, whatever it is given.\<close>

definition signer_trace :: "bridge \<Rightarrow> event list \<Rightarrow> (thrown + string) \<Rightarrow> bool" where
  "signer_trace b evs res =
     ((evs = [] \<and> isl res)
      \<or> (\<exists>u err. evs = [SignTransactions u] \<and> signTransactions b u = Inl err \<and> res = Inl err)
      \<or> (\<exists>u signed. evs = [SignTransactions u, SendRawTransaction signed]
            \<and> signTransactions b u = Inr signed \<and> res = sendRawTransaction b signed))"

text \<open>The words a handler puts before the status when a response carries no text.\<close>

definition failure_label :: "endpoint \<Rightarrow> string" where
  "failure_label ep =
     (case ep of DeployBuild \<Rightarrow> ''Build deploy failed'' | DeployFinalize \<Rightarrow> ''Finalize failed''
               | BuildContribution \<Rightarrow> ''Build failed'' | BuildClaimTokens \<Rightarrow> ''Build failed''
               | BuildRefund \<Rightarrow> ''Build failed'')"

text \<open>The error field of the parsed body, as text, where it has one.\<close>

definition error_text :: "parsed \<Rightarrow> string option" where
  "error_text data =
     (case data of
        JsonNull \<Rightarrow> None
      | JsonValue d \<Rightarrow>
          (case error_field d of
             Absent \<Rightarrow> None | Text s \<Rightarrow> Some s | NonString s \<Rightarrow> Some s | Unprintable \<Rightarrow> None))"

text \<open>The one alert of a run is the error field of the response or its raw body.\<close>

definition surfaces_server_reason :: "env \<Rightarrow> response \<Rightarrow> event list \<Rightarrow> bool" where
  "surfaces_server_reason e r evs =
     (alerts evs = [body r]
      \<or> (case error_text (parse_or_empty e (body r)) of
            None \<Rightarrow> False
          | Some m \<Rightarrow> alerts evs = [m]))"

subsection \<open>A concrete page\<close>

text \<open>A page with the bridge attached, a wallet connected, 5 typed into the amount input
  and a server that answers every build with a two-leg group; \<open>parseFloat\<close> is given on
  the four inputs used.\<close>

definition demo_bridge :: bridge where
  "demo_bridge =
     \<lparr>activeAddress = Some ''ADDR'',
      decodeUnsignedTransaction = (\<lambda>b64. Inr (Transaction b64)),
      encodeUnsignedTransaction = (\<lambda>t. case t of Transaction raw \<Rightarrow> raw),
      signTransactions = (\<lambda>txns. Inr (map (\<lambda>t. ''signed:'' @ t) txns)),
      sendRawTransaction = (\<lambda>blobs. Inr ''TXID'')\<rparr>"

definition demo_parseFloat :: "string \<Rightarrow> number" where
  "demo_parseFloat s =
     (if s = ''5'' then Finite 5 else if s = ''0'' then Finite 0
      else if s = ''-5'' then Finite (- 5) else NaN)"

text \<open>\<open>JSON.parse\<close> on the six bodies used: a build answer, a rejection with a reason, a
  rejection whose \<open>error\<close> is the number 42, one whose \<open>error\<close> is an empty array, one whose
  \<open>error\<close> is an object with a \<open>toString\<close> that is no function, and \<open>null\<close>; anything else
  does not parse.\<close>

definition demo_parse :: "string \<Rightarrow> parsed option" where
  "demo_parse raw =
     (if raw = ''{group}''
      then Some (JsonValue \<lparr>error_field = Absent, group_field = Some [''PAY'', ''CALL''],
                            group_other_length = False, txn_field = Some ''CALL'',
                            app_id_field = Some ''7''\<rparr>)
      else if raw = ''{error}''
      then Some (JsonValue (emptyJson\<lparr>error_field := Text ''Deadline passed''\<rparr>))
      else if raw = ''{error:42}''
      then Some (JsonValue (emptyJson\<lparr>error_field := NonString ''42''\<rparr>))
      else if raw = ''{error:[]}''
      then Some (JsonValue (emptyJson\<lparr>error_field := NonString []\<rparr>))
      else if raw = ''{error:{toString:1}}''
      then Some (JsonValue (emptyJson\<lparr>error_field := Unprintable\<rparr>))
      else if raw = ''null'' then Some JsonNull
      else None)"

definition demo_env :: env where
  "demo_env =
     \<lparr>hyperdrive = Some demo_bridge, connectedAccount = None, connectedAddr = Some ''ADDR'',
      contrib_amt = Some ''5'', deploy_hint = True, parseFloat = demo_parseFloat,
      fetch = (\<lambda>ep req. Inr \<lparr>ok = True, status = 200, body = ''{group}''\<rparr>),
      JSON_parse = demo_parse,
      atob = (\<lambda>s. Inr s), window_wallet = None, PeraWalletConnect = None,
      typeError = ErrorObject ''TypeError'' ''Cannot read properties'',
      syntaxError = ErrorObject ''SyntaxError'' ''Unexpected end of JSON input''\<rparr>"

text \<open>The same page with \<open>-5\<close> typed in, and with a server that answers 500 with an
  empty body, 400 with a reason, or 500 with any other body.\<close>

definition negative_env :: env where
  "negative_env = demo_env\<lparr>contrib_amt := Some ''-5''\<rparr>"

definition silent_500 :: response where
  "silent_500 = \<lparr>ok = False, status = 500, body = []\<rparr>"

definition silent_env :: env where
  "silent_env = demo_env\<lparr>fetch := (\<lambda>ep req. Inr silent_500)\<rparr>"

definition reason_400 :: response where
  "reason_400 = \<lparr>ok = False, status = 400, body = ''{error}''\<rparr>"

definition rejecting_env :: env where
  "rejecting_env = demo_env\<lparr>fetch := (\<lambda>ep req. Inr reason_400)\<rparr>"

definition answering :: "string \<Rightarrow> env" where
  "answering raw = demo_env\<lparr>fetch := (\<lambda>ep req. Inr \<lparr>ok = False, status = 500, body = raw\<rparr>)\<rparr>"

section \<open>Properties of the settlement engine\<close>

subsection \<open>Ledger lemmas\<close>

lemma ledgerSum_upsert_add:
  "ledgerSum (upsert a (\<lambda>r. r\<lparr>amountContributed := amountContributed r + n\<rparr>) l) = ledgerSum l + n"
  by (induction l) (auto simp: ledgerSum_def newRecord_def)

lemma ledgerSum_upsert_keep:
  "(\<And>r. amountContributed (f r) = amountContributed r) \<Longrightarrow> ledgerSum (upsert a f l) = ledgerSum l"
  by (induction l) (auto simp: ledgerSum_def newRecord_def)

lemma get_upsert_same:
  "get (upsert a f l) a = Some (f (case get l a of None \<Rightarrow> newRecord | Some r \<Rightarrow> r))"
  by (induction l) (auto simp: get_def)

lemmas op_defs = contribute_def claimTokens_def refund_def withdrawFunds_def
  returnDeposit_def reclaimDepositOnFailure_def

subsection \<open>The contribution total\<close>

lemma contribute_Inr:
  assumes "contribute s now a n p = Inr (s', tr)"
  shows "resolvePhase (contract s) now = Funding"
    and "raisedTotal (contract s') = raisedTotal (contract s) + n"
    and "ledgerSum (ledger s') = ledgerSum (ledger s) + n"
  using assms by (auto simp: contribute_def ledgerSum_upsert_add split: if_splits)

lemma apply_op_sum:
  assumes "ledgerSum (ledger s) = raisedTotal (contract s)" "apply_op s now op = Inr (s', tr)"
  shows "ledgerSum (ledger s') = raisedTotal (contract s')"
  using assms
  by (cases op)
     (auto simp: op_defs ledgerSum_upsert_add ledgerSum_upsert_keep Let_def
        split: if_splits Phase.splits option.splits)

lemma submit_sum:
  assumes "ledgerSum (ledger s) = raisedTotal (contract s)"
  shows "ledgerSum (ledger (submit s call)) = raisedTotal (contract (submit s call))"
proof (cases "apply_op s (fst call) (snd call)")
  case (Inl e)
  then show ?thesis using assms by (simp add: submit_def)
next
  case (Inr x)
  obtain s' tr where x: "x = (s', tr)" by (cases x)
  from apply_op_sum [OF assms, of "fst call" "snd call" s' tr] Inr x
  show ?thesis by (simp add: submit_def)
qed

lemma states_sum:
  "ledgerSum (ledger s) = raisedTotal (contract s) \<Longrightarrow> s' \<in> set (states s calls) \<Longrightarrow>
   ledgerSum (ledger s') = raisedTotal (contract s')"
proof (induction calls arbitrary: s)
  case Nil
  then show ?case by simp
next
  case (Cons call calls)
  have here: "ledgerSum (ledger (submit s call)) = raisedTotal (contract (submit s call))"
    by (rule submit_sum [OF Cons.prems(1)])
  from Cons.prems(2) consider "s' = submit s call" | "s' \<in> set (states (submit s call) calls)"
    by auto
  then show ?case
  proof cases
    case 1
    then show ?thesis using here by simp
  next
    case 2
    then show ?thesis by (rule Cons.IH [OF here])
  qed
qed

subsection \<open>Claiming tokens\<close>

lemma claimTokens_Inr:
  assumes "claimTokens s now a = Inr (s1, paid)"
  shows "\<exists>r. get (ledger s) a = Some r \<and> \<not> tokensClaimed r \<and> 0 < amountContributed r
           \<and> paid = [PayTokens a (amountContributed r * tokenRate (contract s))]
           \<and> phase (contract s1) = Succeeded
           \<and> get (ledger s1) a = Some (r\<lparr>tokensClaimed := True\<rparr>)"
  using assms
  by (auto simp: claimTokens_def get_upsert_same split: Phase.splits option.splits if_splits)

lemma claimTokens_again:
  assumes "phase (contract s1) = Succeeded" "get (ledger s1) a = Some r" "tokensClaimed r"
  shows "claimTokens s1 now' a = Inl AlreadyClaimed"
  using assms by (simp add: claimTokens_def resolvePhase_def)

subsection \<open>Phase resolution\<close>

lemma resolvePhase_mono:
  "resolvePhase c t \<noteq> Funding \<Longrightarrow> t \<le> t' \<Longrightarrow> resolvePhase c t' = resolvePhase c t"
  by (auto simp: resolvePhase_def split: if_splits)

lemma apply_op_resolved:
  assumes "resolvePhase (contract s) t \<noteq> Funding" "apply_op s t op = Inr (s', tr)"
  shows "phase (contract s') = resolvePhase (contract s) t"
  using assms
  by (cases op)
     (auto simp: op_defs Let_def split: if_splits Phase.splits option.splits)

lemma submit_resolved:
  assumes "resolvePhase (contract s) t \<noteq> Funding" "t \<le> t'"
  shows "resolvePhase (contract (submit s (t, op))) t' = resolvePhase (contract s) t"
proof (cases "apply_op s t op")
  case (Inl e)
  then have "submit s (t, op) = s" by (simp add: submit_def)
  then show ?thesis using resolvePhase_mono [OF assms] by simp
next
  case (Inr x)
  obtain s' tr where x: "x = (s', tr)" by (cases x)
  have sub: "submit s (t, op) = s'" using Inr x by (simp add: submit_def)
  have ph: "phase (contract s') = resolvePhase (contract s) t"
    using apply_op_resolved [OF assms(1), of op "s'" tr] Inr x by simp
  have "phase (contract s') \<noteq> Funding" using ph assms(1) by simp
  then have "resolvePhase (contract s') t' = phase (contract s')"
    by (simp add: resolvePhase_def)
  then show ?thesis using ph sub by simp
qed

lemma phases_stable:
  "resolvePhase (contract s) t \<noteq> Funding \<Longrightarrow> sorted (t # map fst calls) \<Longrightarrow>
   p \<in> set (phases s calls) \<Longrightarrow> p = resolvePhase (contract s) t"
proof (induction calls arbitrary: s t)
  case Nil
  then show ?case by simp
next
  case (Cons call calls)
  obtain t1 op where call: "call = (t1, op)" by (cases call)
  from Cons.prems(2) call have le: "t \<le> t1" and srt: "sorted (t1 # map fst calls)" by auto
  from Cons.prems(1) le have r1: "resolvePhase (contract s) t1 = resolvePhase (contract s) t"
    by (rule resolvePhase_mono)
  with Cons.prems(1) have nf: "resolvePhase (contract s) t1 \<noteq> Funding" by simp
  have here: "resolvePhase (contract (submit s (t1, op))) t1 = resolvePhase (contract s) t1"
    by (rule submit_resolved [OF nf]) simp
  with nf have nf': "resolvePhase (contract (submit s (t1, op))) t1 \<noteq> Funding" by simp
  from Cons.prems(3) call
  consider "p = resolvePhase (contract (submit s (t1, op))) t1"
    | "p \<in> set (phases (submit s (t1, op)) calls)"
    by auto
  then show ?case
  proof cases
    case 1
    then show ?thesis using here r1 by simp
  next
    case 2
    from Cons.IH [OF nf' srt 2] show ?thesis using here r1 by simp
  qed
qed

subsection \<open>The deposit\<close>

lemma apply_op_deposit:
  "apply_op s t op = Inr (s', tr) \<Longrightarrow> depositAmount (contract s') = depositAmount (contract s)"
  by (cases op)
     (auto simp: op_defs Let_def split: if_splits Phase.splits option.splits)

lemma submit_deposit: "depositAmount (contract (submit s call)) = depositAmount (contract s)"
  by (auto simp: submit_def split: sum.splits dest: apply_op_deposit)

lemma run_deposit: "depositAmount (contract (run s calls)) = depositAmount (contract s)"
  unfolding run_def
  by (induction calls arbitrary: s) (simp_all add: submit_deposit)

lemmas eval_defs = scenario_def run_def submit_def deploy_def op_defs resolvePhase_def
  fundingWindow_def get_def ledgerSum_def newRecord_def execute_def Let_def

lemma scenario_state:
  "scenario = \<lparr>contract =
        \<lparr>goal = 100, deadline = 5184000, tokenRate = 3,
         depositAmount = 2, raisedTotal = 110, phase = Funding,
         creatorAddress = ''CREATOR'', adminAddress = ''ADMIN'',
         depositReturned = False, feeWithdrawn = False\<rparr>,
      ledger = [(''A'', \<lparr>amountContributed = 60, tokensClaimed = False, refunded = False\<rparr>),
                (''B'', \<lparr>amountContributed = 50, tokensClaimed = False, refunded = False\<rparr>)]\<rparr>"
  by (simp add: eval_defs)

lemma tie_state:
  "tie = \<lparr>contract =
        \<lparr>goal = 110, deadline = 5184000, tokenRate = 3,
         depositAmount = 11 / 5, raisedTotal = 110, phase = Funding,
         creatorAddress = ''CREATOR'', adminAddress = ''ADMIN'',
         depositReturned = False, feeWithdrawn = False\<rparr>,
      ledger = [(''A'', \<lparr>amountContributed = 60, tokensClaimed = False, refunded = False\<rparr>),
                (''B'', \<lparr>amountContributed = 50, tokensClaimed = False, refunded = False\<rparr>)]\<rparr>"
  by (simp add: tie_def eval_defs)

lemma million_state:
  "million = \<lparr>contract =
        \<lparr>goal = 1000000, deadline = 5184000, tokenRate = 3,
         depositAmount = 20000, raisedTotal = 200, phase = Funding,
         creatorAddress = ''CREATOR'', adminAddress = ''ADMIN'',
         depositReturned = False, feeWithdrawn = False\<rparr>,
      ledger = [(''A'', \<lparr>amountContributed = 200, tokensClaimed = False, refunded = False\<rparr>)]\<rparr>"
  by (simp add: million_def eval_defs)

subsection \<open>Claims about the settlement engine\<close>

text \<open>
  Claim C1. Starting from a state whose contribution records sum to \<open>raisedTotal\<close> (the
  freshly deployed contract is one), every \<open>Contribute\<close> that commits was evaluated in
  phase \<open>Funding\<close>, adds its amount to \<open>raisedTotal\<close> and to the sum alike, and after each
  call of any submitted sequence the sum over all records of \<open>amountContributed\<close> equals
  \<open>raisedTotal\<close>.
\<close>

theorem sum_equals_raisedTotal:
  assumes "ledgerSum (ledger s) = raisedTotal (contract s)"
  shows "(\<forall>now sender amount paid s' tr.
            contribute s now sender amount paid = Inr (s', tr) \<longrightarrow>
              resolvePhase (contract s) now = Funding
              \<and> raisedTotal (contract s') = raisedTotal (contract s) + amount
              \<and> ledgerSum (ledger s') = raisedTotal (contract s'))
         \<and> (\<forall>s' \<in> set (states s calls). ledgerSum (ledger s') = raisedTotal (contract s'))"
proof (intro conjI allI impI ballI)
  fix now sender amount paid s' tr
  assume ok: "contribute s now sender amount paid = Inr (s', tr)"
  show "resolvePhase (contract s) now = Funding" by (rule contribute_Inr(1) [OF ok])
  show "raisedTotal (contract s') = raisedTotal (contract s) + amount"
    by (rule contribute_Inr(2) [OF ok])
  show "ledgerSum (ledger s') = raisedTotal (contract s')"
    using contribute_Inr(2,3) [OF ok] assms by simp
next
  fix s' assume "s' \<in> set (states s calls)"
  then show "ledgerSum (ledger s') = raisedTotal (contract s')" by (rule states_sum [OF assms])
qed

theorem sum_equals_raisedTotal_witness:
  "ledgerSum (ledger (deploy ''CREATOR'' ''ADMIN'' 100 3 0))
     = raisedTotal (contract (deploy ''CREATOR'' ''ADMIN'' 100 3 0))
   \<and> contribute (deploy ''CREATOR'' ''ADMIN'' 100 3 0) 1 ''A'' 60 60
       = Inr (\<lparr>contract = (contract (deploy ''CREATOR'' ''ADMIN'' 100 3 0))\<lparr>raisedTotal := 60\<rparr>,
               ledger = [(''A'', \<lparr>amountContributed = 60, tokensClaimed = False, refunded = False\<rparr>)]\<rparr>, [])
   \<and> map (\<lambda>s. (ledgerSum (ledger s), raisedTotal (contract s)))
        (states (deploy ''CREATOR'' ''ADMIN'' 100 3 0)
           [(1, Contribute ''A'' 60 60), (2, Contribute ''B'' 50 50), (3, Contribute ''A'' 5 5)])
       = [(60, 60), (110, 110), (115, 115)]"
proof -
  let ?d = "deploy ''CREATOR'' ''ADMIN'' 100 3 0"
  let ?calls = "[(1, Contribute ''A'' 60 60), (2, Contribute ''B'' 50 50), (3, Contribute ''A'' 5 5)]"
  have inv: "ledgerSum (ledger ?d) = raisedTotal (contract ?d)"
    by (simp add: deploy_def ledgerSum_def)
  have "\<forall>s' \<in> set (states ?d ?calls). ledgerSum (ledger s') = raisedTotal (contract s')"
    using sum_equals_raisedTotal [OF inv, of ?calls] by (rule conjunct2)
  then show ?thesis by (simp add: eval_defs)
qed

text \<open>
  Claim C2. After a first \<open>ClaimTokens(addr)\<close> has committed, a second one, at any time,
  is rejected with \<open>AlreadyClaimed\<close>, an error of kind \<open>DuplicateAction\<close>; it leaves the
  world as it was, so the token balance of \<open>addr\<close> has grown by exactly
  \<open>amountContributed * tokenRate\<close>, from the first call only.
\<close>

theorem second_claim_rejected:
  assumes "execute w now (ClaimTokens a) = (w1, None)"
  shows "\<exists>r. get (ledger (engine w)) a = Some r
           \<and> execute w1 now' (ClaimTokens a) = (w1, Some AlreadyClaimed)
           \<and> errorKind AlreadyClaimed = DuplicateAction
           \<and> tokenBalance (fst (execute w1 now' (ClaimTokens a))) a
               = tokenBalance w a + amountContributed r * tokenRate (contract (engine w))"
proof -
  from assms obtain s1 paid where ok: "claimTokens (engine w) now a = Inr (s1, paid)"
    and w1: "w1 = \<lparr>engine = s1, tokenBalance = (\<lambda>b. tokenBalance w b + tokensPaidTo b paid)\<rparr>"
    by (auto simp: execute_def split: sum.splits)
  from claimTokens_Inr [OF ok] obtain r where r: "get (ledger (engine w)) a = Some r"
    "paid = [PayTokens a (amountContributed r * tokenRate (contract (engine w)))]"
    "phase (contract s1) = Succeeded" "get (ledger s1) a = Some (r\<lparr>tokensClaimed := True\<rparr>)"
    by blast
  have again: "claimTokens s1 now' a = Inl AlreadyClaimed"
    by (rule claimTokens_again [OF r(3) r(4)]) simp
  have ex: "execute w1 now' (ClaimTokens a) = (w1, Some AlreadyClaimed)"
    by (simp add: execute_def w1 again)
  show ?thesis using r(1) r(2) ex w1 by simp
qed

theorem second_claim_rejected_witness:
  "execute \<lparr>engine = scenario, tokenBalance = (\<lambda>a. 0)\<rparr> 5184000 (ClaimTokens ''A'')
     = (claimedOnce, None)
   \<and> snd (execute claimedOnce 5184001 (ClaimTokens ''A'')) = Some AlreadyClaimed
   \<and> tokenBalance (fst (execute claimedOnce 5184001 (ClaimTokens ''A''))) ''A'' = 180"
proof -
  let ?w = "\<lparr>engine = scenario, tokenBalance = (\<lambda>a. 0)\<rparr>"
  have first: "execute ?w 5184000 (ClaimTokens ''A'') = (claimedOnce, None)"
    by (simp add: claimedOnce_def scenario_state execute_def claimTokens_def resolvePhase_def get_def)
  have r: "get (ledger (engine ?w)) ''A''
             = Some \<lparr>amountContributed = 60, tokensClaimed = False, refunded = False\<rparr>"
    by (simp add: scenario_state get_def)
  have rate: "tokenRate (contract (engine ?w)) = 3" by (simp add: scenario_state)
  from second_claim_rejected [OF first, of 5184001] r rate
  have "snd (execute claimedOnce 5184001 (ClaimTokens ''A'')) = Some AlreadyClaimed
        \<and> tokenBalance (fst (execute claimedOnce 5184001 (ClaimTokens ''A''))) ''A'' = 180"
    by auto
  with first show ?thesis by simp
qed

text \<open>
  Claim C3. From the unresolved phase \<open>Funding\<close>, the first action evaluated at or after
  the deadline resolves the phase to \<open>Succeeded\<close> if \<open>raisedTotal >= goal\<close> (equality
  included) and to \<open>Failed\<close> otherwise, never both; after that action and after every
  later one of any sequence (time not running backwards) the resolved phase is still
  the same.
\<close>

theorem phase_resolves_once:
  assumes "phase (contract s) = Funding" "deadline (contract s) \<le> t" "sorted (t # map fst calls)"
  shows "resolvePhase (contract s) t
           = (if goal (contract s) \<le> raisedTotal (contract s) then Succeeded else Failed)
         \<and> (\<forall>p \<in> set (phases s ((t, op) # calls)). p = resolvePhase (contract s) t)"
proof (intro conjI ballI)
  show a: "resolvePhase (contract s) t
           = (if goal (contract s) \<le> raisedTotal (contract s) then Succeeded else Failed)"
    using assms(1,2) by (simp add: resolvePhase_def)
  fix p assume p: "p \<in> set (phases s ((t, op) # calls))"
  have nf: "resolvePhase (contract s) t \<noteq> Funding" by (simp add: a)
  have srt: "sorted (t # map fst ((t, op) # calls))" using assms(3) by simp
  show "p = resolvePhase (contract s) t" by (rule phases_stable [OF nf srt p])
qed

theorem phase_resolves_once_witness:
  "phase (contract tie) = Funding \<and> deadline (contract tie) \<le> 5184000
   \<and> sorted (5184000 # map fst [(5184000 :: nat, Contribute ''A'' 5 5), (5184007, Refund ''A'')])
   \<and> resolvePhase (contract tie) 5184000 = Succeeded
   \<and> phases tie [(5184000, ClaimTokens ''B''), (5184000, Contribute ''A'' 5 5), (5184007, Refund ''A'')]
       = [Succeeded, Succeeded, Succeeded]"
proof -
  have h1: "phase (contract tie) = Funding" by (simp add: tie_state)
  have h2: "deadline (contract tie) \<le> 5184000" by (simp add: tie_state)
  have h3: "sorted (5184000 # map fst [(5184000 :: nat, Contribute ''A'' 5 5), (5184007, Refund ''A'')])"
    by simp
  have r: "resolvePhase (contract tie) 5184000 = Succeeded"
    using phase_resolves_once [OF h1 h2 h3, of "ClaimTokens ''B''"] by (simp add: tie_state)
  have "phases tie [(5184000, ClaimTokens ''B''), (5184000, Contribute ''A'' 5 5), (5184007, Refund ''A'')]
       = [Succeeded, Succeeded, Succeeded]"
    by (simp add: tie_state submit_def op_defs resolvePhase_def get_def)
  with h1 h2 h3 r show ?thesis by blast
qed

text \<open>
  Claim C4. In phase \<open>Succeeded\<close>, called by the creator with \<open>feeWithdrawn\<close> unset,
  \<open>WithdrawFunds\<close> pays 98% of \<open>min(raisedTotal, goal)\<close> to the creator and 2% of it to
  the admin, sets \<open>feeWithdrawn\<close>, and what it leaves of \<open>raisedTotal\<close> is exactly the
  amount raised beyond the goal.
\<close>

theorem withdrawFunds_pays:
  assumes "resolvePhase (contract s) now = Succeeded" "caller = creatorAddress (contract s)"
    "\<not> feeWithdrawn (contract s)"
  shows "withdrawFunds s now caller =
           Inr (s\<lparr>contract := (contract s)\<lparr>phase := Succeeded, feeWithdrawn := True\<rparr>\<rparr>,
                [PayCurrency (creatorAddress (contract s))
                   (of_nat (min (raisedTotal (contract s)) (goal (contract s))) * 98 / 100),
                 PayCurrency (adminAddress (contract s))
                   (of_nat (min (raisedTotal (contract s)) (goal (contract s))) * 2 / 100)])
         \<and> of_nat (raisedTotal (contract s))
             - currencyPaid
                 [PayCurrency (creatorAddress (contract s))
                    (of_nat (min (raisedTotal (contract s)) (goal (contract s))) * 98 / 100),
                  PayCurrency (adminAddress (contract s))
                    (of_nat (min (raisedTotal (contract s)) (goal (contract s))) * 2 / 100)]
             = of_nat (raisedTotal (contract s) - goal (contract s))"
proof
  show "withdrawFunds s now caller =
           Inr (s\<lparr>contract := (contract s)\<lparr>phase := Succeeded, feeWithdrawn := True\<rparr>\<rparr>,
                [PayCurrency (creatorAddress (contract s))
                   (of_nat (min (raisedTotal (contract s)) (goal (contract s))) * 98 / 100),
                 PayCurrency (adminAddress (contract s))
                   (of_nat (min (raisedTotal (contract s)) (goal (contract s))) * 2 / 100)])"
    using assms by (simp add: withdrawFunds_def Let_def)
  have "(of_nat (raisedTotal (contract s)) :: rat) - of_nat (min (raisedTotal (contract s)) (goal (contract s)))
          = of_nat (raisedTotal (contract s) - goal (contract s))"
    by (cases "raisedTotal (contract s) \<le> goal (contract s)") (simp_all add: min_def of_nat_diff)
  then show "of_nat (raisedTotal (contract s))
             - currencyPaid
                 [PayCurrency (creatorAddress (contract s))
                    (of_nat (min (raisedTotal (contract s)) (goal (contract s))) * 98 / 100),
                  PayCurrency (adminAddress (contract s))
                    (of_nat (min (raisedTotal (contract s)) (goal (contract s))) * 2 / 100)]
             = of_nat (raisedTotal (contract s) - goal (contract s))"
    by simp
qed

theorem withdrawFunds_pays_witness:
  "resolvePhase (contract scenario) 5184000 = Succeeded
   \<and> ''CREATOR'' = creatorAddress (contract scenario)
   \<and> \<not> feeWithdrawn (contract scenario)
   \<and> withdrawFunds scenario 5184000 ''CREATOR''
       = Inr (scenario\<lparr>contract := (contract scenario)\<lparr>phase := Succeeded, feeWithdrawn := True\<rparr>\<rparr>,
              [PayCurrency ''CREATOR'' 98, PayCurrency ''ADMIN'' 2])
   \<and> of_nat (raisedTotal (contract scenario))
        - currencyPaid [PayCurrency ''CREATOR'' 98, PayCurrency ''ADMIN'' 2] = (10 :: rat)"
proof -
  have h1: "resolvePhase (contract scenario) 5184000 = Succeeded"
    by (simp add: scenario_state resolvePhase_def)
  have h2: "''CREATOR'' = creatorAddress (contract scenario)" by (simp add: scenario_state)
  have h3: "\<not> feeWithdrawn (contract scenario)" by (simp add: scenario_state)
  have vals: "raisedTotal (contract scenario) = 110" "goal (contract scenario) = 100"
    "creatorAddress (contract scenario) = ''CREATOR''" "adminAddress (contract scenario) = ''ADMIN''"
    by (simp_all add: scenario_state)
  from withdrawFunds_pays [OF h1 h2 h3]
  have "withdrawFunds scenario 5184000 ''CREATOR''
       = Inr (scenario\<lparr>contract := (contract scenario)\<lparr>phase := Succeeded, feeWithdrawn := True\<rparr>\<rparr>,
              [PayCurrency ''CREATOR'' 98, PayCurrency ''ADMIN'' 2])
   \<and> of_nat (raisedTotal (contract scenario))
        - currencyPaid [PayCurrency ''CREATOR'' 98, PayCurrency ''ADMIN'' 2] = (10 :: rat)"
    by (simp add: vals)
  with h1 h3 show ?thesis by (simp add: vals(3))
qed

text \<open>
  Claim C5. The deposit of a deployed contract is 2% of the goal and stays so whatever
  is submitted; in phase \<open>Failed\<close> with \<open>depositReturned\<close> unset,
  \<open>ReclaimDepositOnFailure\<close> pays half of it to the admin and half to the creator and
  sets \<open>depositReturned\<close> (10_000 each for a goal of 1_000_000).
\<close>

theorem deposit_split:
  "depositAmount (contract (run (deploy creator admin g rate created) calls)) = of_nat g * 2 / 100
   \<and> (resolvePhase (contract s) now = Failed \<longrightarrow> \<not> depositReturned (contract s) \<longrightarrow>
        reclaimDepositOnFailure s now caller =
          Inr (s\<lparr>contract := (contract s)\<lparr>phase := Failed, depositReturned := True\<rparr>\<rparr>,
               [PayCurrency (adminAddress (contract s)) (depositAmount (contract s) / 2),
                PayCurrency (creatorAddress (contract s)) (depositAmount (contract s) / 2)]))"
proof (intro conjI impI)
  show "depositAmount (contract (run (deploy creator admin g rate created) calls)) = of_nat g * 2 / 100"
    by (simp add: run_deposit) (simp add: deploy_def)
next
  assume "resolvePhase (contract s) now = Failed" "\<not> depositReturned (contract s)"
  then show "reclaimDepositOnFailure s now caller =
          Inr (s\<lparr>contract := (contract s)\<lparr>phase := Failed, depositReturned := True\<rparr>\<rparr>,
               [PayCurrency (adminAddress (contract s)) (depositAmount (contract s) / 2),
                PayCurrency (creatorAddress (contract s)) (depositAmount (contract s) / 2)])"
    by (simp add: reclaimDepositOnFailure_def Let_def)
qed

theorem deposit_split_witness:
  "depositAmount (contract million) = 20000
   \<and> resolvePhase (contract million) 5184000 = Failed
   \<and> \<not> depositReturned (contract million)
   \<and> reclaimDepositOnFailure million 5184000 ''ANYONE'' =
          Inr (million\<lparr>contract := (contract million)\<lparr>phase := Failed, depositReturned := True\<rparr>\<rparr>,
               [PayCurrency ''ADMIN'' 10000, PayCurrency ''CREATOR'' 10000])"
proof -
  have h1: "resolvePhase (contract million) 5184000 = Failed"
    by (simp add: million_state resolvePhase_def)
  have h2: "\<not> depositReturned (contract million)" by (simp add: million_state)
  have vals: "depositAmount (contract million) = 20000"
    "creatorAddress (contract million) = ''CREATOR''" "adminAddress (contract million) = ''ADMIN''"
    by (simp_all add: million_state)
  have d: "depositAmount (contract million) = of_nat 1000000 * 2 / 100"
    using deposit_split [of "''CREATOR''" "''ADMIN''" 1000000 3 0 "[(1, Contribute ''A'' 200 200)]" million 5184000 "''ANYONE''"]
    unfolding million_def by (rule conjunct1)
  have "reclaimDepositOnFailure million 5184000 ''ANYONE'' =
          Inr (million\<lparr>contract := (contract million)\<lparr>phase := Failed, depositReturned := True\<rparr>\<rparr>,
               [PayCurrency (adminAddress (contract million)) (depositAmount (contract million) / 2),
                PayCurrency (creatorAddress (contract million)) (depositAmount (contract million) / 2)])"
    using deposit_split [of "''CREATOR''" "''ADMIN''" 1000000 3 0 "[]" million 5184000 "''ANYONE''"] h1 h2
    by blast
  then show ?thesis using h1 h2 d by (simp add: vals)
qed

section \<open>Properties of the wallet front end\<close>

subsection \<open>Traces\<close>

lemmas io_defs = try_catch_def andThen_def effect_def outcall_def throw_def resolved_def

lemma alerts_append: "alerts (xs @ ys) = alerts xs @ alerts ys"
  by (induction xs rule: alerts.induct) simp_all

lemma fetches_append: "fetches (xs @ ys) = fetches xs @ fetches ys"
  by (induction xs rule: fetches.induct) simp_all

lemma signs_append: "signs (xs @ ys) = signs xs @ signs ys"
  by (induction xs rule: signs.induct) simp_all

lemma sends_append: "sends (xs @ ys) = sends xs @ sends ys"
  by (induction xs rule: sends.induct) simp_all

lemmas trace_append = alerts_append fetches_append signs_append sends_append

text \<open>The bridge's signer, step by step.\<close>

lemma signAndSendGroup_unfold:
  "signAndSendGroup b te g =
     (if \<not> truthy (activeAddress b)
      then ([], Inl (newError ''No active wallet. Please connect first.''))
      else case g of
        None \<Rightarrow> ([], Inl te)
      | Some entries \<Rightarrow>
          (case traverse (decode b te) entries of
             Inl err \<Rightarrow> ([], Inl err)
           | Inr txns \<Rightarrow>
               (case signTransactions b (map (encodeUnsignedTransaction b) txns) of
                  Inl err \<Rightarrow> ([SignTransactions (map (encodeUnsignedTransaction b) txns)], Inl err)
                | Inr signed \<Rightarrow>
                    ([SignTransactions (map (encodeUnsignedTransaction b) txns),
                      SendRawTransaction signed],
                     sendRawTransaction b signed))))"
  by (auto simp: signAndSendGroup_def io_defs Let_def split: option.splits sum.splits)

lemma signAndSendGroup_trace:
  "signer_trace b (fst (signAndSendGroup b te g)) (snd (signAndSendGroup b te g))"
  by (auto simp: signAndSendGroup_unfold signer_trace_def newError_def split: option.splits sum.splits)

lemma signer_trace_facts:
  assumes "signer_trace b evs res"
  shows "alerts evs = []" "fetches evs = []" "length (signs evs) \<le> Suc 0" "length (sends evs) \<le> Suc 0"
    and "u \<in> set (signs evs) \<Longrightarrow> signTransactions b u = Inl err \<Longrightarrow> res = Inl err"
    and "blobs \<in> set (sends evs) \<Longrightarrow> sendRawTransaction b blobs = Inl err \<Longrightarrow> res = Inl err"
    and "blobs \<in> set (sends evs) \<Longrightarrow> \<exists>u. signs evs = [u] \<and> signTransactions b u = Inr blobs"
  using assms by (auto simp: signer_trace_def)

lemma wallet_group_trace:
  assumes "hyperdrive e = None \<or> hyperdrive e = Some b"
  shows "signer_trace b (fst (wallet_signAndSendGroup e g)) (snd (wallet_signAndSendGroup e g))"
  using assms signAndSendGroup_trace [of b "typeError e" "map_option (map Some) g"]
  by (auto simp: wallet_signAndSendGroup_def throw_def signer_trace_def)

lemma wallet_single_trace:
  assumes "hyperdrive e = None \<or> hyperdrive e = Some b"
  shows "signer_trace b (fst (wallet_signAndSendSingle e t)) (snd (wallet_signAndSendSingle e t))"
  using assms signAndSendGroup_trace [of b "typeError e" "Some [t]"]
  by (auto simp: wallet_signAndSendSingle_def signAndSendSingle_def throw_def signer_trace_def)


lemma first_truthy_nonempty: "fb \<noteq> [] \<Longrightarrow> first_truthy vs fb \<noteq> []"
  by (induction vs fb rule: first_truthy.induct) auto

lemma alerts_catch: "alerts (catch_alert err) = [message_or_String err]"
  by (simp add: catch_alert_def)

lemma catch_others:
  "fetches (catch_alert err) = []" "signs (catch_alert err) = []" "sends (catch_alert err) = []"
  by (simp_all add: catch_alert_def)

lemma set_hint_silent:
  "alerts (fst (set_hint e s)) = []" "fetches (fst (set_hint e s)) = []"
  "signs (fst (set_hint e s)) = []" "sends (fst (set_hint e s)) = []"
  by (simp_all add: set_hint_def io_defs)

lemma hint_clear_silent:
  "alerts (if deploy_hint e then [SetHint []] else []) = []"
  "fetches (if deploy_hint e then [SetHint []] else []) = []"
  "signs (if deploy_hint e then [SetHint []] else []) = []"
  "sends (if deploy_hint e then [SetHint []] else []) = []"
  by simp_all

lemmas flow_simps = trace_append alerts_catch catch_others set_hint_silent hint_clear_silent

text \<open>The handlers of the bridge-driven wallet.js, step by step.\<close>

lemma contribute_click_nf:
  "contribute_click e =
     (if \<not> truthy (getActiveAddress e) then [Alert ''Connect wallet first.'']
      else if falsy_number (parseFloat e (first_truthy [contrib_amt e] ''0''))
              \<or> le_zero (parseFloat e (first_truthy [contrib_amt e] ''0''))
      then [Alert ''Enter an amount > 0'']
      else Fetch BuildContribution
             (ContributionBody (getActiveAddress e) (parseFloat e (first_truthy [contrib_amt e] ''0'')))
           # (case fetch e BuildContribution
                     (ContributionBody (getActiveAddress e) (parseFloat e (first_truthy [contrib_amt e] ''0''))) of
                Inl err \<Rightarrow> catch_alert err
              | Inr r \<Rightarrow>
                  (case parse_or_empty e (body r) of
                     JsonNull \<Rightarrow> catch_alert (typeError e)
                   | JsonValue d \<Rightarrow>
                       if \<not> ok r
                       then catch_alert (rejection e (error_field d) r ''Build failed'')
                       else fst (wallet_signAndSendGroup e (group_field d))
                            @ (case snd (wallet_signAndSendGroup e (group_field d)) of
                                 Inl err \<Rightarrow> catch_alert err
                               | Inr txId \<Rightarrow>
                                   [Alert (''Contributed! TxID: '' @ txId @ new_line @ new_line
                                           @ ''Explorer:'' @ new_line
                                           @ ''https://testnet.algoexplorer.io/tx/'' @ txId)]))))"
  by (auto simp: contribute_click_def io_defs property_def Let_def
        split: sum.splits prod.splits parsed.splits option.splits)

lemma contribute_click_once:
  "length (alerts (contribute_click e)) \<le> 1 \<and> distinct (map fst (fetches (contribute_click e)))
   \<and> length (signs (contribute_click e)) \<le> 1 \<and> length (sends (contribute_click e)) \<le> 1"
proof -
  obtain b where hb: "hyperdrive e = None \<or> hyperdrive e = Some b" by (cases "hyperdrive e") auto
  note tr = signer_trace_facts(1-4) [OF wallet_group_trace [OF hb]]
  show ?thesis
    unfolding contribute_click_nf
    by (simp add: flow_simps tr split: sum.splits parsed.splits)
qed

lemma contribute_click_rejection:
  assumes "(ep, req) \<in> set (fetches (contribute_click e))" "fetch e ep req = Inr r" "\<not> ok r"
    and "parse_or_empty e (body r) = JsonValue d"
  shows "alerts (contribute_click e)
           = [message_or_String (rejection e (error_field d) r (failure_label ep))]"
proof -
  obtain b where hb: "hyperdrive e = None \<or> hyperdrive e = Some b" by (cases "hyperdrive e") auto
  note tr = signer_trace_facts(1-4) [OF wallet_group_trace [OF hb]]
  show ?thesis
    using assms unfolding contribute_click_nf
    by (auto simp: flow_simps tr failure_label_def split: sum.splits parsed.splits if_splits)
qed

lemma contribute_click_thrown:
  assumes "hyperdrive e = None \<or> hyperdrive e = Some b"
    and "(\<exists>ep req. (ep, req) \<in> set (fetches (contribute_click e)) \<and> fetch e ep req = Inl err)
         \<or> (\<exists>u \<in> set (signs (contribute_click e)). signTransactions b u = Inl err)
         \<or> (\<exists>blobs \<in> set (sends (contribute_click e)). sendRawTransaction b blobs = Inl err)"
  shows "alerts (contribute_click e) = [message_or_String err]"
proof -
  note tr = signer_trace_facts [OF wallet_group_trace [OF assms(1)]]
  show ?thesis
    using assms(2) unfolding contribute_click_nf
    by (auto simp: flow_simps tr(1-4) split: sum.splits parsed.splits if_splits dest: tr(5) tr(6))
qed

lemma claim_click_nf:
  "claim_click e =
     (if \<not> truthy (getActiveAddress e) then [Alert ''Connect wallet first.'']
      else Fetch BuildClaimTokens (AddressBody (getActiveAddress e))
           # (case fetch e BuildClaimTokens (AddressBody (getActiveAddress e)) of
                Inl err \<Rightarrow> catch_alert err
              | Inr r \<Rightarrow>
                  (case parse_or_empty e (body r) of
                     JsonNull \<Rightarrow> catch_alert (typeError e)
                   | JsonValue d \<Rightarrow>
                       if \<not> ok r
                       then catch_alert (rejection e (error_field d) r ''Build failed'')
                       else fst (wallet_signAndSendSingle e (txn_field d))
                            @ (case snd (wallet_signAndSendSingle e (txn_field d)) of
                                 Inl err \<Rightarrow> catch_alert err
                               | Inr txId \<Rightarrow> [Alert (''Claim submitted! TxID: '' @ txId)]))))"
  by (auto simp: claim_click_def io_defs property_def Let_def split: sum.splits prod.splits parsed.splits option.splits)

lemma claim_click_once:
  "length (alerts (claim_click e)) \<le> 1 \<and> distinct (map fst (fetches (claim_click e)))
   \<and> length (signs (claim_click e)) \<le> 1 \<and> length (sends (claim_click e)) \<le> 1"
proof -
  obtain b where hb: "hyperdrive e = None \<or> hyperdrive e = Some b" by (cases "hyperdrive e") auto
  note tr = signer_trace_facts(1-4) [OF wallet_single_trace [OF hb]]
  show ?thesis
    unfolding claim_click_nf
    by (simp add: flow_simps tr split: sum.splits parsed.splits)
qed

lemma claim_click_rejection:
  assumes "(ep, req) \<in> set (fetches (claim_click e))" "fetch e ep req = Inr r" "\<not> ok r"
    and "parse_or_empty e (body r) = JsonValue d"
  shows "alerts (claim_click e)
           = [message_or_String (rejection e (error_field d) r (failure_label ep))]"
proof -
  obtain b where hb: "hyperdrive e = None \<or> hyperdrive e = Some b" by (cases "hyperdrive e") auto
  note tr = signer_trace_facts(1-4) [OF wallet_single_trace [OF hb]]
  show ?thesis
    using assms unfolding claim_click_nf
    by (auto simp: flow_simps tr failure_label_def split: sum.splits parsed.splits if_splits)
qed

lemma claim_click_thrown:
  assumes "hyperdrive e = None \<or> hyperdrive e = Some b"
    and "(\<exists>ep req. (ep, req) \<in> set (fetches (claim_click e)) \<and> fetch e ep req = Inl err)
         \<or> (\<exists>u \<in> set (signs (claim_click e)). signTransactions b u = Inl err)
         \<or> (\<exists>blobs \<in> set (sends (claim_click e)). sendRawTransaction b blobs = Inl err)"
  shows "alerts (claim_click e) = [message_or_String err]"
proof -
  note tr = signer_trace_facts [OF wallet_single_trace [OF assms(1)]]
  show ?thesis
    using assms(2) unfolding claim_click_nf
    by (auto simp: flow_simps tr(1-4) split: sum.splits parsed.splits if_splits dest: tr(5) tr(6))
qed

lemma refund_click_nf:
  "refund_click e =
     (if \<not> truthy (getActiveAddress e) then [Alert ''Connect wallet first.'']
      else Fetch BuildRefund (AddressBody (getActiveAddress e))
           # (case fetch e BuildRefund (AddressBody (getActiveAddress e)) of
                Inl err \<Rightarrow> catch_alert err
              | Inr r \<Rightarrow>
                  (case parse_or_empty e (body r) of
                     JsonNull \<Rightarrow> catch_alert (typeError e)
                   | JsonValue d \<Rightarrow>
                       if \<not> ok r
                       then catch_alert (rejection e (error_field d) r ''Build failed'')
                       else fst (wallet_signAndSendSingle e (txn_field d))
                            @ (case snd (wallet_signAndSendSingle e (txn_field d)) of
                                 Inl err \<Rightarrow> catch_alert err
                               | Inr txId \<Rightarrow> [Alert (''Refund submitted! TxID: '' @ txId)]))))"
  by (auto simp: refund_click_def io_defs property_def Let_def split: sum.splits prod.splits parsed.splits option.splits)

lemma refund_click_once:
  "length (alerts (refund_click e)) \<le> 1 \<and> distinct (map fst (fetches (refund_click e)))
   \<and> length (signs (refund_click e)) \<le> 1 \<and> length (sends (refund_click e)) \<le> 1"
proof -
  obtain b where hb: "hyperdrive e = None \<or> hyperdrive e = Some b" by (cases "hyperdrive e") auto
  note tr = signer_trace_facts(1-4) [OF wallet_single_trace [OF hb]]
  show ?thesis
    unfolding refund_click_nf
    by (simp add: flow_simps tr split: sum.splits parsed.splits)
qed

lemma refund_click_rejection:
  assumes "(ep, req) \<in> set (fetches (refund_click e))" "fetch e ep req = Inr r" "\<not> ok r"
    and "parse_or_empty e (body r) = JsonValue d"
  shows "alerts (refund_click e)
           = [message_or_String (rejection e (error_field d) r (failure_label ep))]"
proof -
  obtain b where hb: "hyperdrive e = None \<or> hyperdrive e = Some b" by (cases "hyperdrive e") auto
  note tr = signer_trace_facts(1-4) [OF wallet_single_trace [OF hb]]
  show ?thesis
    using assms unfolding refund_click_nf
    by (auto simp: flow_simps tr failure_label_def split: sum.splits parsed.splits if_splits)
qed

lemma refund_click_thrown:
  assumes "hyperdrive e = None \<or> hyperdrive e = Some b"
    and "(\<exists>ep req. (ep, req) \<in> set (fetches (refund_click e)) \<and> fetch e ep req = Inl err)
         \<or> (\<exists>u \<in> set (signs (refund_click e)). signTransactions b u = Inl err)
         \<or> (\<exists>blobs \<in> set (sends (refund_click e)). sendRawTransaction b blobs = Inl err)"
  shows "alerts (refund_click e) = [message_or_String err]"
proof -
  note tr = signer_trace_facts [OF wallet_single_trace [OF assms(1)]]
  show ?thesis
    using assms(2) unfolding refund_click_nf
    by (auto simp: flow_simps tr(1-4) split: sum.splits parsed.splits if_splits dest: tr(5) tr(6))
qed

lemma andThen_set_hint:
  "andThen (set_hint e s) f = (fst (set_hint e s) @ fst (f ()), snd (f ()))"
  by (auto simp: set_hint_def io_defs split: prod.splits)

lemma deploy_click_nf:
  "deploy_click e =
     (if \<not> truthy (getActiveAddress e)
      then catch_alert (newError ''Connect a wallet first.'') @ (if deploy_hint e then [SetHint []] else [])
      else
        fst (set_hint e (''Building deploy transaction'' @ ellipsis))
        @ Fetch DeployBuild (CreatorAddressBody (getActiveAddress e))
        # (case fetch e DeployBuild (CreatorAddressBody (getActiveAddress e)) of
             Inl err \<Rightarrow> catch_alert err @ (if deploy_hint e then [SetHint []] else [])
           | Inr r \<Rightarrow>
               (case parse_or_empty e (body r) of
                  JsonNull \<Rightarrow> catch_alert (typeError e) @ (if deploy_hint e then [SetHint []] else [])
                | JsonValue d \<Rightarrow>
                    if \<not> ok r
                    then catch_alert (rejection e (error_field d) r ''Build deploy failed'')
                         @ (if deploy_hint e then [SetHint []] else [])
                    else if \<not> group_has_entries d
                    then catch_alert (error_or e (error_field d) ''No deploy group returned.'')
                         @ (if deploy_hint e then [SetHint []] else [])
                    else
                      fst (set_hint e (''Waiting for wallet signature'' @ ellipsis))
                      @ fst (wallet_signAndSendGroup e (group_field d))
                      @ (case snd (wallet_signAndSendGroup e (group_field d)) of
                           Inl err \<Rightarrow> catch_alert err @ (if deploy_hint e then [SetHint []] else [])
                         | Inr txId \<Rightarrow>
                             fst (set_hint e (''Finalizing deployment'' @ ellipsis))
                             @ Fetch DeployFinalize (TxIdBody txId)
                             # (case fetch e DeployFinalize (TxIdBody txId) of
                                  Inl err \<Rightarrow> catch_alert err @ (if deploy_hint e then [SetHint []] else [])
                                | Inr finR \<Rightarrow>
                                    if \<not> ok finR
                                    then (case parse_or_empty e (body finR) of
                                            JsonNull \<Rightarrow>
                                              catch_alert (typeError e)
                                              @ (if deploy_hint e then [SetHint []] else [])
                                          | JsonValue fin \<Rightarrow>
                                              catch_alert (rejection e (error_field fin) finR ''Finalize failed'')
                                              @ (if deploy_hint e then [SetHint []] else []))
                                    else if \<not> deploy_hint e then [ReloadLater]
                                    else (case parse_or_empty e (body finR) of
                                            JsonNull \<Rightarrow> catch_alert (typeError e) @ [SetHint []]
                                          | JsonValue fin \<Rightarrow>
                                              (case app_id_field fin of
                                                 None \<Rightarrow> catch_alert (typeError e) @ [SetHint []]
                                               | Some a \<Rightarrow>
                                                   [SetHint (''Deployed! App ID '' @ a
                                                             @ ''. Reloading'' @ ellipsis),
                                                    ReloadLater])))))))"
  unfolding deploy_click_def Let_def andThen_set_hint
  by (simp add: io_defs property_def split: sum.splits prod.splits parsed.splits option.splits)

lemma deploy_click_once:
  "length (alerts (deploy_click e)) \<le> 1 \<and> distinct (map fst (fetches (deploy_click e)))
   \<and> length (signs (deploy_click e)) \<le> 1 \<and> length (sends (deploy_click e)) \<le> 1"
proof -
  obtain b where hb: "hyperdrive e = None \<or> hyperdrive e = Some b" by (cases "hyperdrive e") auto
  note tr = signer_trace_facts(1-4) [OF wallet_group_trace [OF hb]]
  show ?thesis
    unfolding deploy_click_nf
    by (simp add: flow_simps tr split: sum.splits parsed.splits option.splits)
qed

lemma deploy_click_rejection:
  assumes "(ep, req) \<in> set (fetches (deploy_click e))" "fetch e ep req = Inr r" "\<not> ok r"
    and "parse_or_empty e (body r) = JsonValue d"
  shows "alerts (deploy_click e)
           = [message_or_String (rejection e (error_field d) r (failure_label ep))]"
proof -
  obtain b where hb: "hyperdrive e = None \<or> hyperdrive e = Some b" by (cases "hyperdrive e") auto
  note tr = signer_trace_facts(1-4) [OF wallet_group_trace [OF hb]]
  show ?thesis
    using assms unfolding deploy_click_nf
    by (auto simp: flow_simps tr failure_label_def split: sum.splits parsed.splits option.splits if_splits)
qed

lemma deploy_click_thrown:
  assumes "hyperdrive e = None \<or> hyperdrive e = Some b"
    and "(\<exists>ep req. (ep, req) \<in> set (fetches (deploy_click e)) \<and> fetch e ep req = Inl err)
         \<or> (\<exists>u \<in> set (signs (deploy_click e)). signTransactions b u = Inl err)
         \<or> (\<exists>blobs \<in> set (sends (deploy_click e)). sendRawTransaction b blobs = Inl err)"
  shows "alerts (deploy_click e) = [message_or_String err]"
proof -
  note tr = signer_trace_facts [OF wallet_group_trace [OF assms(1)]]
  show ?thesis
    using assms(2) unfolding deploy_click_nf
    by (auto simp: flow_simps tr(1-4) split: sum.splits parsed.splits option.splits if_splits dest: tr(5) tr(6))
qed

lemma message_new: "message_or_String (newError t) = (if t = [] then ''Error'' else t)"
  by (simp add: newError_def message_or_String_def)

lemma contribute_click_sends:
  assumes "hyperdrive e = Some b" "blobs \<in> set (sends (contribute_click e))"
  shows "\<exists>u. signs (contribute_click e) = [u] \<and> signTransactions b u = Inr blobs"
proof -
  have hb: "hyperdrive e = None \<or> hyperdrive e = Some b" using assms(1) by simp
  note tr = signer_trace_facts [OF wallet_group_trace [OF hb]]
  show ?thesis
    using assms(2) unfolding contribute_click_nf
    by (auto simp: flow_simps tr(1-4) split: sum.splits parsed.splits if_splits dest: tr(7))
qed

lemma two_legs_signed:
  assumes "hyperdrive e = Some b" "truthy (activeAddress b)"
    and "decodeUnsignedTransaction b paymentLeg = Inr p" "decodeUnsignedTransaction b callLeg = Inr c"
  shows "wallet_signAndSendGroup e (Some [paymentLeg, callLeg]) =
           (case signTransactions b [encodeUnsignedTransaction b p, encodeUnsignedTransaction b c] of
              Inl err \<Rightarrow> ([SignTransactions [encodeUnsignedTransaction b p, encodeUnsignedTransaction b c]],
                           Inl err)
            | Inr signed \<Rightarrow>
                ([SignTransactions [encodeUnsignedTransaction b p, encodeUnsignedTransaction b c],
                  SendRawTransaction signed], sendRawTransaction b signed))"
  using assms
  by (simp add: wallet_signAndSendGroup_def signAndSendGroup_unfold decode_def split: sum.splits)

subsection \<open>Bodies that parse to null, error fields that are no strings\<close>

text \<open>On these the handlers do as the source does: reading \<open>data.error\<close> of \<open>null\<close> throws and
  the \<open>TypeError\<close> is what is alerted; \<open>new Error\<close> turns the number 42 into the message
  \<open>42\<close> and an empty array into the empty message, for which \<open>String(e)\<close> is alerted; on an
  object that has no \<open>String\<close> form \<open>new Error\<close> throws, and that \<open>TypeError\<close> is alerted.\<close>

lemma null_body_click:
  "alerts (contribute_click (answering ''null''))
     = [message_or_String (typeError (answering ''null''))]"
  by code_simp

lemma number_error_click:
  "alerts (contribute_click (answering ''{error:42}'')) = [''42'']"
  by code_simp

lemma array_error_click:
  "alerts (contribute_click (answering ''{error:[]}'')) = [''Error'']"
  by code_simp

lemma unprintable_error_click:
  "alerts (contribute_click (answering ''{error:{toString:1}}''))
     = [message_or_String (typeError (answering ''{error:{toString:1}}''))]"
  by code_simp

subsection \<open>Claims about the wallet front end\<close>

text \<open>
  Claim C6. When the page has a connected wallet and a positive amount, and
  \<open>build_contribution\<close> answers with the group of a payment leg and a call leg, the
  contribute handler of the bridge-driven wallet.js asks the wallet once to sign both
  legs, in the order received, and hands what the wallet returns for the group to one
  \<open>sendRawTransaction\<close> call. In every run of the handler there is at most one signing
  request and at most one submission, and a submission carries the wallet's answer to
  that one signing request, so the legs never go out separately.
\<close>

theorem contribution_legs_go_together:
  assumes "truthy (getActiveAddress e)"
    and "parseFloat e (first_truthy [contrib_amt e] ''0'') = amt"
    and "\<not> falsy_number amt" "\<not> le_zero amt"
    and "fetch e BuildContribution (ContributionBody (getActiveAddress e) amt) = Inr r" "ok r"
    and "parse_or_empty e (body r) = JsonValue d"
    and "group_field d = Some [paymentLeg, callLeg]"
    and "hyperdrive e = Some b" "truthy (activeAddress b)"
    and "decodeUnsignedTransaction b paymentLeg = Inr p"
    and "decodeUnsignedTransaction b callLeg = Inr c"
  shows "fetches (contribute_click e) = [(BuildContribution, ContributionBody (getActiveAddress e) amt)]
       \<and> signs (contribute_click e) = [[encodeUnsignedTransaction b p, encodeUnsignedTransaction b c]]
       \<and> sends (contribute_click e) =
           (case signTransactions b [encodeUnsignedTransaction b p, encodeUnsignedTransaction b c] of
              Inl err \<Rightarrow> [] | Inr signed \<Rightarrow> [signed])
       \<and> length (signs (contribute_click e')) \<le> 1 \<and> length (sends (contribute_click e')) \<le> 1
       \<and> (\<forall>blobs \<in> set (sends (contribute_click e')). \<forall>b'. hyperdrive e' = Some b' \<longrightarrow>
             (\<exists>u. signs (contribute_click e') = [u] \<and> signTransactions b' u = Inr blobs))"
proof -
  note legs = two_legs_signed [OF assms(9-12)]
  have run: "contribute_click e =
      Fetch BuildContribution (ContributionBody (getActiveAddress e) amt)
      # fst (wallet_signAndSendGroup e (Some [paymentLeg, callLeg]))
      @ (case snd (wallet_signAndSendGroup e (Some [paymentLeg, callLeg])) of
           Inl err \<Rightarrow> catch_alert err
         | Inr txId \<Rightarrow>
             [Alert (''Contributed! TxID: '' @ txId @ new_line @ new_line @ ''Explorer:''
                     @ new_line @ ''https://testnet.algoexplorer.io/tx/'' @ txId)])"
    using assms(1-8) by (simp add: contribute_click_nf)
  have a: "fetches (contribute_click e) = [(BuildContribution, ContributionBody (getActiveAddress e) amt)]"
    unfolding run legs by (simp add: trace_append catch_others split: sum.splits)
  have b: "signs (contribute_click e) = [[encodeUnsignedTransaction b p, encodeUnsignedTransaction b c]]"
    unfolding run legs by (simp add: trace_append catch_others split: sum.splits)
  have c: "sends (contribute_click e) =
           (case signTransactions b [encodeUnsignedTransaction b p, encodeUnsignedTransaction b c] of
              Inl err \<Rightarrow> [] | Inr signed \<Rightarrow> [signed])"
    unfolding run legs by (simp add: trace_append catch_others split: sum.splits)
  have d: "length (signs (contribute_click e')) \<le> 1 \<and> length (sends (contribute_click e')) \<le> 1"
    using contribute_click_once [of e'] by simp
  have f: "\<forall>blobs \<in> set (sends (contribute_click e')). \<forall>b'. hyperdrive e' = Some b' \<longrightarrow>
             (\<exists>u. signs (contribute_click e') = [u] \<and> signTransactions b' u = Inr blobs)"
    using contribute_click_sends by blast
  from a b c d f show ?thesis by blast
qed

theorem contribution_legs_go_together_witness:
  "truthy (getActiveAddress demo_env)
   \<and> parseFloat demo_env (first_truthy [contrib_amt demo_env] ''0'') = Finite 5
   \<and> \<not> falsy_number (Finite 5) \<and> \<not> le_zero (Finite 5)
   \<and> fetch demo_env BuildContribution (ContributionBody (getActiveAddress demo_env) (Finite 5))
       = Inr \<lparr>ok = True, status = 200, body = ''{group}''\<rparr>
   \<and> parse_or_empty demo_env ''{group}''
       = JsonValue \<lparr>error_field = Absent, group_field = Some [''PAY'', ''CALL''],
                    group_other_length = False, txn_field = Some ''CALL'',
                    app_id_field = Some ''7''\<rparr>
   \<and> hyperdrive demo_env = Some demo_bridge \<and> truthy (activeAddress demo_bridge)
   \<and> decodeUnsignedTransaction demo_bridge ''PAY'' = Inr (Transaction ''PAY'')
   \<and> decodeUnsignedTransaction demo_bridge ''CALL'' = Inr (Transaction ''CALL'')
   \<and> signs (contribute_click demo_env) = [[''PAY'', ''CALL'']]
   \<and> sends (contribute_click demo_env) = [[''signed:PAY'', ''signed:CALL'']]"
proof -
  let ?d = "\<lparr>error_field = Absent, group_field = Some [''PAY'', ''CALL''],
             group_other_length = False, txn_field = Some ''CALL'', app_id_field = Some ''7''\<rparr>"
  have h1: "truthy (getActiveAddress demo_env)" by code_simp
  have h2: "parseFloat demo_env (first_truthy [contrib_amt demo_env] ''0'') = Finite 5" by code_simp
  have h3: "\<not> falsy_number (Finite 5)" by code_simp
  have h4: "\<not> le_zero (Finite 5)" by code_simp
  have h5: "fetch demo_env BuildContribution (ContributionBody (getActiveAddress demo_env) (Finite 5))
       = Inr \<lparr>ok = True, status = 200, body = ''{group}''\<rparr>"
    by (simp add: demo_env_def)
  have h6: "ok \<lparr>ok = True, status = 200, body = ''{group}''\<rparr>" by simp
  have p: "parse_or_empty demo_env ''{group}'' = JsonValue ?d"
    by (simp add: parse_or_empty_def demo_env_def demo_parse_def)
  then have h7: "parse_or_empty demo_env (body \<lparr>ok = True, status = 200, body = ''{group}''\<rparr>)
                   = JsonValue ?d"
    by simp
  have h7': "group_field ?d = Some [''PAY'', ''CALL'']" by simp
  have h8: "hyperdrive demo_env = Some demo_bridge" by (simp add: demo_env_def)
  have h9: "truthy (activeAddress demo_bridge)" by (simp add: demo_bridge_def truthy_def)
  have h10: "decodeUnsignedTransaction demo_bridge ''PAY'' = Inr (Transaction ''PAY'')"
    by (simp add: demo_bridge_def)
  have h11: "decodeUnsignedTransaction demo_bridge ''CALL'' = Inr (Transaction ''CALL'')"
    by (simp add: demo_bridge_def)
  have enc: "encodeUnsignedTransaction demo_bridge (Transaction ''PAY'') = ''PAY''"
    "encodeUnsignedTransaction demo_bridge (Transaction ''CALL'') = ''CALL''"
    "signTransactions demo_bridge [''PAY'', ''CALL''] = Inr [''signed:PAY'', ''signed:CALL'']"
    by (simp_all add: demo_bridge_def)
  from contribution_legs_go_together [OF h1 h2 h3 h4 h5 h6 h7 h7' h8 h9 h10 h11, of demo_env]
  have "signs (contribute_click demo_env) = [[''PAY'', ''CALL'']]
        \<and> sends (contribute_click demo_env) = [[''signed:PAY'', ''signed:CALL'']]"
    by (simp add: enc)
  with h1 h2 h3 h4 h5 p h8 h9 h10 h11 show ?thesis by simp
qed

text \<open>
  Claim C7, as amended. In the contribute, claim, refund and deploy flows of the
  bridge-driven wallet.js no run shows more than one alert, requests an endpoint twice,
  or signs or submits more than once. When a build or finalize response is not ok and
  its body does not parse or parses to a value other than \<open>null\<close>, the one alert is the
  error field if that is a non-empty string, and, if there is no error field or it is
  falsy (the empty string included), the raw body if that is not empty and otherwise the
  generated text made of the flow's label and the status. When \<open>fetch\<close>, the signing or
  the submission throws, the one alert is the thrown value's message (its \<open>String\<close> form
  when it has none). What is alerted for a body that parses to \<open>null\<close>, or for an error field that
  is truthy and not a string, is left open.
\<close>

theorem rejection_alerted_once:
  assumes "click \<in> {contribute_click, claim_click, refund_click, deploy_click}"
  shows "length (alerts (click e)) \<le> 1 \<and> distinct (map fst (fetches (click e)))
       \<and> length (signs (click e)) \<le> 1 \<and> length (sends (click e)) \<le> 1
       \<and> (\<forall>ep req r d s. (ep, req) \<in> set (fetches (click e)) \<and> fetch e ep req = Inr r \<and> \<not> ok r
               \<and> parse_or_empty e (body r) = JsonValue d
               \<and> error_field d = Text s \<and> s \<noteq> [] \<longrightarrow>
             alerts (click e) = [s])
       \<and> (\<forall>ep req r d. (ep, req) \<in> set (fetches (click e)) \<and> fetch e ep req = Inr r \<and> \<not> ok r
               \<and> parse_or_empty e (body r) = JsonValue d
               \<and> (error_field d = Absent \<or> error_field d = Text []) \<longrightarrow>
             alerts (click e) =
               [if body r \<noteq> [] then body r
                else failure_label ep @ '' ('' @ decimal (status r) @ '')''])
       \<and> (\<forall>ep req err. (ep, req) \<in> set (fetches (click e)) \<and> fetch e ep req = Inl err \<longrightarrow>
             alerts (click e) = [message_or_String err])
       \<and> (\<forall>b err. hyperdrive e = Some b
               \<and> ((\<exists>u \<in> set (signs (click e)). signTransactions b u = Inl err)
                   \<or> (\<exists>blobs \<in> set (sends (click e)). sendRawTransaction b blobs = Inl err)) \<longrightarrow>
             alerts (click e) = [message_or_String err])"
proof -
  obtain b0 where hb0: "hyperdrive e = None \<or> hyperdrive e = Some b0"
    by (cases "hyperdrive e") auto
  have once: "length (alerts (click e)) \<le> 1 \<and> distinct (map fst (fetches (click e)))
       \<and> length (signs (click e)) \<le> 1 \<and> length (sends (click e)) \<le> 1"
    using assms contribute_click_once claim_click_once refund_click_once deploy_click_once
    by auto
  have rej: "alerts (click e)
              = [message_or_String (rejection e (error_field d) r (failure_label ep))]"
    if "(ep, req) \<in> set (fetches (click e))" "fetch e ep req = Inr r" "\<not> ok r"
      "parse_or_empty e (body r) = JsonValue d" for ep req r d
    using assms that contribute_click_rejection claim_click_rejection refund_click_rejection
      deploy_click_rejection
    by auto
  have thr: "alerts (click e) = [message_or_String err]"
    if "hyperdrive e = None \<or> hyperdrive e = Some b"
      "(\<exists>ep req. (ep, req) \<in> set (fetches (click e)) \<and> fetch e ep req = Inl err)
         \<or> (\<exists>u \<in> set (signs (click e)). signTransactions b u = Inl err)
         \<or> (\<exists>blobs \<in> set (sends (click e)). sendRawTransaction b blobs = Inl err)" for b err
  proof -
    from assms consider "click = contribute_click" | "click = claim_click"
      | "click = refund_click" | "click = deploy_click" by auto
    then show ?thesis
    proof cases
      case 1 then show ?thesis using that contribute_click_thrown [of e b err] by simp
    next
      case 2 then show ?thesis using that claim_click_thrown [of e b err] by simp
    next
      case 3 then show ?thesis using that refund_click_thrown [of e b err] by simp
    next
      case 4 then show ?thesis using that deploy_click_thrown [of e b err] by simp
    qed
  qed
  have p1: "\<forall>ep req r d s. (ep, req) \<in> set (fetches (click e)) \<and> fetch e ep req = Inr r \<and> \<not> ok r
               \<and> parse_or_empty e (body r) = JsonValue d
               \<and> error_field d = Text s \<and> s \<noteq> [] \<longrightarrow>
             alerts (click e) = [s]"
  proof (intro allI impI)
    fix ep req r d s
    assume h: "(ep, req) \<in> set (fetches (click e)) \<and> fetch e ep req = Inr r \<and> \<not> ok r
               \<and> parse_or_empty e (body r) = JsonValue d
               \<and> error_field d = Text s \<and> s \<noteq> []"
    then have "alerts (click e)
                = [message_or_String (rejection e (error_field d) r (failure_label ep))]"
      using rej [of ep req r d] by blast
    with h show "alerts (click e) = [s]"
      by (simp add: rejection_def error_or_def message_new)
  qed
  have p2: "\<forall>ep req r d. (ep, req) \<in> set (fetches (click e)) \<and> fetch e ep req = Inr r \<and> \<not> ok r
               \<and> parse_or_empty e (body r) = JsonValue d
               \<and> (error_field d = Absent \<or> error_field d = Text []) \<longrightarrow>
             alerts (click e) =
               [if body r \<noteq> [] then body r
                else failure_label ep @ '' ('' @ decimal (status r) @ '')'']"
  proof (intro allI impI)
    fix ep req r d
    assume h: "(ep, req) \<in> set (fetches (click e)) \<and> fetch e ep req = Inr r \<and> \<not> ok r
               \<and> parse_or_empty e (body r) = JsonValue d
               \<and> (error_field d = Absent \<or> error_field d = Text [])"
    then have a: "alerts (click e)
                = [message_or_String (rejection e (error_field d) r (failure_label ep))]"
      using rej [of ep req r d] by blast
    from h have "rejection e (error_field d) r (failure_label ep)
                   = newError (if body r \<noteq> [] then body r
                               else failure_label ep @ '' ('' @ decimal (status r) @ '')'')"
      by (auto simp: rejection_def error_or_def)
    with a show "alerts (click e) =
               [if body r \<noteq> [] then body r
                else failure_label ep @ '' ('' @ decimal (status r) @ '')'']"
      by (simp add: message_new)
  qed
  have p3: "\<forall>ep req err. (ep, req) \<in> set (fetches (click e)) \<and> fetch e ep req = Inl err \<longrightarrow>
             alerts (click e) = [message_or_String err]"
    using thr [OF hb0] by blast
  have p4: "\<forall>b err. hyperdrive e = Some b
               \<and> ((\<exists>u \<in> set (signs (click e)). signTransactions b u = Inl err)
                   \<or> (\<exists>blobs \<in> set (sends (click e)). sendRawTransaction b blobs = Inl err)) \<longrightarrow>
             alerts (click e) = [message_or_String err]"
  proof (intro allI impI)
    fix b err
    assume h: "hyperdrive e = Some b
               \<and> ((\<exists>u \<in> set (signs (click e)). signTransactions b u = Inl err)
                   \<or> (\<exists>blobs \<in> set (sends (click e)). sendRawTransaction b blobs = Inl err))"
    then have "hyperdrive e = None \<or> hyperdrive e = Some b" by simp
    from thr [OF this] h show "alerts (click e) = [message_or_String err]" by blast
  qed
  from once p1 p2 p3 p4 show ?thesis by blast
qed

theorem rejection_alerted_once_witness:
  "contribute_click \<in> {contribute_click, claim_click, refund_click, deploy_click}
   \<and> (BuildContribution, ContributionBody (Some ''ADDR'') (Finite 5))
        \<in> set (fetches (contribute_click rejecting_env))
   \<and> fetch rejecting_env BuildContribution (ContributionBody (Some ''ADDR'') (Finite 5))
       = Inr reason_400
   \<and> \<not> ok reason_400
   \<and> parse_or_empty rejecting_env (body reason_400)
       = JsonValue (emptyJson\<lparr>error_field := Text ''Deadline passed''\<rparr>)
   \<and> alerts (contribute_click rejecting_env) = [''Deadline passed'']
   \<and> (BuildContribution, ContributionBody (Some ''ADDR'') (Finite 5))
        \<in> set (fetches (contribute_click silent_env))
   \<and> fetch silent_env BuildContribution (ContributionBody (Some ''ADDR'') (Finite 5)) = Inr silent_500
   \<and> \<not> ok silent_500
   \<and> parse_or_empty silent_env (body silent_500) = JsonValue emptyJson
   \<and> alerts (contribute_click silent_env) = [''Build failed (500)'']
   \<and> length (alerts (contribute_click rejecting_env)) \<le> 1
   \<and> length (sends (contribute_click rejecting_env)) \<le> 1"
proof -
  let ?req = "ContributionBody (Some ''ADDR'') (Finite 5)"
  have h0: "contribute_click \<in> {contribute_click, claim_click, refund_click, deploy_click}" by simp
  have a1: "(BuildContribution, ?req) \<in> set (fetches (contribute_click rejecting_env))"
    by code_simp
  have a2: "fetch rejecting_env BuildContribution ?req = Inr reason_400"
    by (simp add: rejecting_env_def)
  have a3: "\<not> ok reason_400" by (simp add: reason_400_def)
  have a4: "parse_or_empty rejecting_env (body reason_400)
              = JsonValue (emptyJson\<lparr>error_field := Text ''Deadline passed''\<rparr>)"
    by (simp add: parse_or_empty_def rejecting_env_def demo_env_def demo_parse_def reason_400_def)
  have a5: "error_field (emptyJson\<lparr>error_field := Text ''Deadline passed''\<rparr>) = Text ''Deadline passed''"
    by simp
  have b1: "(BuildContribution, ?req) \<in> set (fetches (contribute_click silent_env))"
    by code_simp
  have b2: "fetch silent_env BuildContribution ?req = Inr silent_500"
    by (simp add: silent_env_def)
  have b3: "\<not> ok silent_500" by (simp add: silent_500_def)
  have b4: "parse_or_empty silent_env (body silent_500) = JsonValue emptyJson"
    by (simp add: parse_or_empty_def silent_env_def demo_env_def demo_parse_def silent_500_def)
  have b5: "error_field emptyJson = Absent" by (simp add: emptyJson_def)
  have bd: "body silent_500 = []" by (simp add: silent_500_def)
  have lbl: "failure_label BuildContribution @ '' ('' @ decimal (status silent_500) @ '')''
               = ''Build failed (500)''" by code_simp
  note th1 = rejection_alerted_once [OF h0, of rejecting_env]
  note th2 = rejection_alerted_once [OF h0, of silent_env]
  from th1 have c1: "length (alerts (contribute_click rejecting_env)) \<le> 1
      \<and> length (sends (contribute_click rejecting_env)) \<le> 1" by blast
  from th1 a1 a2 a3 a4 a5 have c2: "alerts (contribute_click rejecting_env) = [''Deadline passed'']"
    by blast
  from th2 b1 b2 b3 b4 b5
  have "alerts (contribute_click silent_env) =
               [if body silent_500 \<noteq> [] then body silent_500
                else failure_label BuildContribution @ '' ('' @ decimal (status silent_500) @ '')'']"
    by blast
  then have c3: "alerts (contribute_click silent_env) = [''Build failed (500)'']"
    using bd lbl by simp
  from h0 a1 a2 a3 a4 b1 b2 b3 b4 c1 c2 c3 show ?thesis by blast
qed

text \<open>
  The claim as stated, that every failed build is alerted as the response's error field
  or its raw body, fails on a response with status 500 and an empty body: the alert is
  the generated text.
\<close>

theorem empty_body_counterexample:
  "(BuildContribution, ContributionBody (Some ''ADDR'') (Finite 5))
        \<in> set (fetches (contribute_click silent_env))
   \<and> fetch silent_env BuildContribution (ContributionBody (Some ''ADDR'') (Finite 5)) = Inr silent_500
   \<and> \<not> ok silent_500
   \<and> alerts (contribute_click silent_env) = [''Build failed (500)'']
   \<and> body silent_500 = []
   \<and> error_text (parse_or_empty silent_env (body silent_500)) = None
   \<and> \<not> surfaces_server_reason silent_env silent_500 (contribute_click silent_env)"
  by code_simp

text \<open>
  Claim C8. When \<open>wallet.connect()\<close> rejects with an error that \<open>isDismissError\<close> accepts,
  the connect handler has prevented the default, closed the selector if it was open,
  called \<open>connect\<close> and logged the error at debug level, and nothing else: no alert is
  shown and the connection state is not written.
\<close>

theorem dismissed_connect_is_silent:
  assumes "connect_rejects w = Some err" "isDismissError err"
  shows "handleConnectClick w
           = [PreventDefault] @ (if dialog_open w = Some True then [CloseDialog] else [])
             @ [WalletConnect, ConsoleDebug err]
         \<and> alerts (handleConnectClick w) = []
         \<and> connection_writes (handleConnectClick w) = []"
  using assms by (simp add: handleConnectClick_def)

theorem dismissed_connect_is_silent_witness:
  "connect_rejects \<lparr>dialog_open = Some True,
        connect_rejects = Some (ErrorObject ''Error'' ''Modal Closed by User'')\<rparr>
     = Some (ErrorObject ''Error'' ''Modal Closed by User'')
   \<and> isDismissError (ErrorObject ''Error'' ''Modal Closed by User'')
   \<and> handleConnectClick \<lparr>dialog_open = Some True,
        connect_rejects = Some (ErrorObject ''Error'' ''Modal Closed by User'')\<rparr>
       = [PreventDefault, CloseDialog, WalletConnect,
          ConsoleDebug (ErrorObject ''Error'' ''Modal Closed by User'')]
   \<and> alerts (handleConnectClick \<lparr>dialog_open = Some True,
        connect_rejects = Some (ErrorObject ''Error'' ''Modal Closed by User'')\<rparr>) = []
   \<and> connection_writes (handleConnectClick \<lparr>dialog_open = Some True,
        connect_rejects = Some (ErrorObject ''Error'' ''Modal Closed by User'')\<rparr>) = []"
proof -
  let ?err = "ErrorObject ''Error'' ''Modal Closed by User''"
  let ?w = "\<lparr>dialog_open = Some True, connect_rejects = Some ?err\<rparr>"
  have h1: "connect_rejects ?w = Some ?err" by simp
  have h2: "isDismissError ?err" by code_simp
  from dismissed_connect_is_silent [OF h1 h2] h2 show ?thesis by simp
qed

text \<open>
  Claim C9. For every base64 string \<open>t\<close>, \<open>signAndSendSingle(t)\<close> is \<open>signAndSendGroup([t])\<close>,
  trace and result alike, in the bridge and through the wrappers of wallet.js: the
  address check, the decoding, one signing request for the one transaction, one
  submission, and the transaction identifier of that submission.
\<close>

theorem single_is_group_of_one:
  "signAndSendSingle b te (Some t) = signAndSendGroup b te (Some [Some t])
   \<and> wallet_signAndSendSingle e (Some t) = wallet_signAndSendGroup e (Some [t])
   \<and> signAndSendSingle b te (Some t) =
       (if \<not> truthy (activeAddress b)
        then ([], Inl (newError ''No active wallet. Please connect first.''))
        else case decodeUnsignedTransaction b t of
          Inl err \<Rightarrow> ([], Inl err)
        | Inr txn \<Rightarrow>
            (case signTransactions b [encodeUnsignedTransaction b txn] of
               Inl err \<Rightarrow> ([SignTransactions [encodeUnsignedTransaction b txn]], Inl err)
             | Inr signed \<Rightarrow>
                 ([SignTransactions [encodeUnsignedTransaction b txn], SendRawTransaction signed],
                  sendRawTransaction b signed)))"
  by (auto simp: signAndSendSingle_def wallet_signAndSendSingle_def wallet_signAndSendGroup_def
        signAndSendGroup_unfold decode_def split: option.splits sum.splits)

theorem single_is_group_of_one_witness:
  "signAndSendSingle demo_bridge ThrownUndefined (Some ''CALL'')
     = ([SignTransactions [''CALL''], SendRawTransaction [''signed:CALL'']], Inr ''TXID'')
   \<and> signAndSendGroup demo_bridge ThrownUndefined (Some [Some ''CALL''])
     = ([SignTransactions [''CALL''], SendRawTransaction [''signed:CALL'']], Inr ''TXID'')"
proof -
  have f: "truthy (activeAddress demo_bridge)"
    "decodeUnsignedTransaction demo_bridge ''CALL'' = Inr (Transaction ''CALL'')"
    "encodeUnsignedTransaction demo_bridge (Transaction ''CALL'') = ''CALL''"
    "signTransactions demo_bridge [''CALL''] = Inr [''signed:CALL'']"
    "sendRawTransaction demo_bridge [''signed:CALL''] = Inr ''TXID''"
    by (simp_all add: demo_bridge_def truthy_def)
  note th = single_is_group_of_one [of demo_bridge ThrownUndefined "''CALL''" demo_env]
  from th have same: "signAndSendSingle demo_bridge ThrownUndefined (Some ''CALL'')
      = signAndSendGroup demo_bridge ThrownUndefined (Some [Some ''CALL''])" by (rule conjunct1)
  from th [THEN conjunct2, THEN conjunct2]
  have "signAndSendSingle demo_bridge ThrownUndefined (Some ''CALL'')
     = ([SignTransactions [''CALL''], SendRawTransaction [''signed:CALL'']], Inr ''TXID'')"
    by (simp add: f)
  with same [symmetric] show ?thesis by simp
qed

text \<open>
  Claim C10. When the amount input parses to NaN, to zero or to a negative number, the
  contribute handler of each of the three versions of wallet.js shows one alert and
  returns: its trace has no \<open>fetch\<close> and no signing call.
\<close>

theorem nonpositive_amount_stops_click:
  assumes "x = NaN \<or> (\<exists>q. x = Finite q \<and> q \<le> 0) \<or> x = NegInfinity"
  shows "(parseFloat e (first_truthy [contrib_amt e] ''0'') = x \<longrightarrow>
            (contribute_click e = [Alert ''Connect wallet first.'']
             \<or> contribute_click e = [Alert ''Enter an amount > 0''])
            \<and> fetches (contribute_click e) = [] \<and> signs (contribute_click e) = []
            \<and> sends (contribute_click e) = [])
         \<and> (contrib_amt e = Some v \<and> parseFloat e (first_truthy [Some v] ''0'') = x \<longrightarrow>
              contribute_click_react e = [Alert ''Enter an amount'']
              \<and> fetches (contribute_click_react e) = []
              \<and> pera_signs (contribute_click_react e) = []
              \<and> contribute_click_pera e = ([Alert ''Enter amount''], Inr ())
              \<and> fetches (fst (contribute_click_pera e)) = []
              \<and> pera_signs (fst (contribute_click_pera e)) = [])"
proof -
  have bad: "falsy_number x \<or> le_zero x"
    using assms by (auto simp: falsy_number_def le_zero_def)
  then show ?thesis
    by (auto simp: contribute_click_def contribute_click_react_def contribute_click_pera_def
          read_amount_def io_defs Let_def)
qed

theorem nonpositive_amount_stops_click_witness:
  "contrib_amt negative_env = Some ''-5''
   \<and> parseFloat negative_env (first_truthy [contrib_amt negative_env] ''0'') = Finite (- 5)
   \<and> contribute_click negative_env = [Alert ''Enter an amount > 0'']
   \<and> fetches (contribute_click negative_env) = []
   \<and> contribute_click_react negative_env = [Alert ''Enter an amount'']
   \<and> contribute_click_pera negative_env = ([Alert ''Enter amount''], Inr ())"
proof -
  have h: "Finite (- 5) = NaN \<or> (\<exists>q. Finite (- 5) = Finite q \<and> q \<le> 0) \<or> Finite (- 5) = NegInfinity"
    by simp
  have amt: "contrib_amt negative_env = Some ''-5''" by (simp add: negative_env_def)
  have p: "parseFloat negative_env (first_truthy [contrib_amt negative_env] ''0'') = Finite (- 5)"
    by (simp add: negative_env_def demo_env_def demo_parseFloat_def)
  have noconn: "contribute_click negative_env \<noteq> [Alert ''Connect wallet first.'']"
    by code_simp
  from nonpositive_amount_stops_click [OF h, of negative_env "''-5''"] amt p noconn
  show ?thesis by simp
qed

end
